theory Spec2Isabelle
  imports Complex_Main
begin

section \<open>Engine values used by \<open>src/modules/exts/Viewer.js\<close>\<close>

text \<open>
  The Viewer is a layer over the Cesium engine. The engine's classes are not part of the
  repository; they appear here as plain values (what the Viewer reads from them) and as
  logs of the calls the Viewer makes on them.
\<close>

datatype SceneMode = MORPHING | COLUMBUS_VIEW | SCENE2D | SCENE3D

datatype BoundingSphereState = DONE | PENDING | FAILED

datatype Matrix4 = IDENTITY

datatype DeveloperError = DeveloperError string

type_synonym JulianDate = real

type_synonym Cartesian3 = "real \<times> real \<times> real"

datatype Cartographic = Cartographic real real real

datatype HeadingPitchRange = HeadingPitchRange real real real

record BoundingSphere =
  center :: Cartesian3
  radius :: real

text \<open>
  An \<open>Entity\<close> object. \<open>ref\<close> is the identity of the JavaScript object: \<open>===\<close> and
  \<open>!==\<close> on entities compare it. \<open>id'\<close> is the entity's \<open>id\<close> property and
  \<open>position\<close> its \<open>position\<close> property (a reference to a Property object), \<open>None\<close>
  when the property is undefined.
\<close>

record Entity =
  ref :: nat
  id' :: string
  position :: "nat option"

definition same_object :: "Entity option \<Rightarrow> Entity option \<Rightarrow> bool" where
  "same_object a b = (map_option ref a = map_option ref b)"

text \<open>
  An \<open>EntityCollection\<close>: \<open>values\<close> is the address of its array of entities in the
  store of arrays, \<open>getById\<close> its lookup by id. A \<open>DataSource\<close> has \<open>isLoading\<close>,
  \<open>loadingEvent\<close> (here: whether it is defined) and \<open>entities\<close>.
\<close>

record EntityCollection =
  "values" :: nat
  getById :: "string \<Rightarrow> Entity option"

record DataSource =
  isLoading :: bool
  loadingEvent :: bool
  entities :: EntityCollection

datatype VolumetricKind = Cesium3DTileset | VoxelPrimitive | TimeDynamicPointCloud

text \<open>
  A tileset, voxel primitive or point cloud: its class, the identity of its
  \<open>_readyPromise\<close> and its \<open>boundingSphere\<close>.
\<close>

record Volumetric =
  kind :: VolumetricKind
  readyPromise :: nat
  boundingSphere :: BoundingSphere

text \<open>
  What \<open>zoomTo\<close>/\<open>flyTo\<close> accept as target, once \<open>Promise.resolve\<close> has unwrapped it.
  Arrays are passed by reference: \<open>AnArray a\<close> is the array object at address \<open>a\<close>.
\<close>

datatype Target =
    AnImageryLayer nat
  | AVolumetric Volumetric
  | ADataSource DataSource
  | AnEntityCollection EntityCollection
  | AnArray nat
  | AnEntity Entity

text \<open>What \<open>_zoomTarget\<close> holds after normalisation.\<close>

datatype ZoomTarget =
    TVolumetric Volumetric
  | TPosition Cartographic
  | TEntities nat

record ZoomOptions =
  offset :: "HeadingPitchRange option"
  duration :: "real option"
  maximumHeight :: "real option"

text \<open>
  The calls made on \<open>scene.camera\<close>. The \<open>complete\<close>/\<open>cancel\<close> callbacks handed to a
  flight are not stored in the call: both only call \<open>viewer._completeZoom\<close>, which is
  looked up on the viewer when the callback runs.
\<close>

datatype CameraCall =
    viewBoundingSphere BoundingSphere "HeadingPitchRange option"
  | flyToBoundingSphere BoundingSphere "HeadingPitchRange option" "real option" "real option"
  | setView Cartographic "real option" "real option"
  | flyTo Cartographic "real option" "real option"
  | lookAtTransform Matrix4

text \<open>
  The continuations \<open>updateZoomTarget\<close> registers on a target's \<open>_readyPromise\<close>. Each
  closes over the target and over the options read on that render pass. The branch for
  \<open>Cesium3DTileset\<close> and \<open>VoxelPrimitive\<close> chains a \<open>.catch\<close>; the branch for
  \<open>TimeDynamicPointCloud\<close> does not.
\<close>

datatype ReadyCallback =
    ThenCatch Volumetric ZoomOptions
  | ThenOnly Volumetric ZoomOptions

text \<open>
  The engine functions the Viewer calls and whose results it branches on:
  \<open>dataSourceDisplay.getBoundingSphere(entity, allowPartial, result)\<close> returns the state
  and, when the state is \<open>DONE\<close>, has stored the sphere in \<open>result\<close>;
  \<open>dataSourceDisplay.update(time)\<close>; \<open>BoundingSphere.fromBoundingSpheres\<close>;
  \<open>Property.getValueOrUndefined\<close>; \<open>entity.isShowing\<close> and \<open>entity.isAvailable(time)\<close>.
\<close>

record Cesium =
  getBoundingSphere :: "Entity option \<Rightarrow> bool \<Rightarrow> BoundingSphereState \<times> BoundingSphere"
  update :: "JulianDate \<Rightarrow> bool"
  fromBoundingSpheres :: "BoundingSphere list \<Rightarrow> BoundingSphere"
  getValueOrUndefined :: "nat option \<Rightarrow> JulianDate \<Rightarrow> Cartesian3 option"
  isShowing :: "Entity \<Rightarrow> bool"
  isAvailable :: "Entity \<Rightarrow> JulianDate \<Rightarrow> bool"

section \<open>The Viewer\<close>

text \<open>
  The fields of the Viewer that the tracking and zoom logic reads and writes (the
  JavaScript names without their leading underscore), followed by the state of the
  engine objects it mutates and of the JavaScript runtime:
  \<^item> \<open>zoomPromise\<close> and \<open>completeZoom\<close> hold the number of a promise; \<open>completeZoom\<close> is
    the closure \<open>function (value) { resolve(value) }\<close> of that promise;
  \<open>resolveCalls\<close> logs every call of a promise's \<open>resolve\<close>, oldest first;
  \<^item> \<open>arrays\<close> is the store of array objects, an address being an index;
  \<^item> \<open>camera\<close> logs the calls on \<open>scene.camera\<close>, \<open>entityViewUpdates\<close> the calls of
    \<open>EntityView.update\<close>, \<open>trackedEntityChanged\<close> and \<open>selectedEntityChanged\<close> the
    events raised, \<open>renderRequests\<close> counts \<open>scene.requestRender()\<close>;
  \<^item> \<open>flights\<close> counts the camera flights whose callbacks have not run yet,
    \<open>unhandledRejections\<close> the promise rejections no handler took.
\<close>

record Viewer =
  allowDataSourcesToSuspendAnimation :: bool
  enableInfoOrSelection :: bool
  entityView :: "Entity option"
  trackedEntity :: "Entity option"
  needTrackedEntityUpdate :: bool
  selectedEntity :: "Entity option"
  zoomIsFlight :: bool
  zoomTarget :: "ZoomTarget option"
  zoomPromise :: "nat option"
  zoomOptions :: "ZoomOptions option"
  completeZoom :: "nat option"
  sceneMode :: SceneMode
  enableTranslate :: bool
  enableTilt :: bool
  canAnimate :: bool
  currentTime :: JulianDate
  boundingSphereScratch :: BoundingSphere
  camera :: "CameraCall list"
  entityViewUpdates :: "(JulianDate \<times> BoundingSphere option) list"
  trackedEntityChanged :: "Entity option list"
  selectedEntityChanged :: "Entity option list"
  renderRequests :: nat
  resolveCalls :: "(nat \<times> bool) list"
  promiseCount :: nat
  arrays :: "Entity list list"
  readyCallbacks :: "ReadyCallback list"
  flights :: nat
  unhandledRejections :: nat

text \<open>The assignments of the constructor, for a scene in mode \<open>m\<close> and a store of arrays.\<close>

definition newViewer :: "SceneMode \<Rightarrow> Entity list list \<Rightarrow> Viewer" where
  "newViewer m store =
     \<lparr> allowDataSourcesToSuspendAnimation = True,
       enableInfoOrSelection = False,
       entityView = None,
       trackedEntity = None,
       needTrackedEntityUpdate = False,
       selectedEntity = None,
       zoomIsFlight = False,
       zoomTarget = None,
       zoomPromise = None,
       zoomOptions = None,
       completeZoom = None,
       sceneMode = m,
       enableTranslate = True,
       enableTilt = True,
       canAnimate = True,
       currentTime = 0,
       boundingSphereScratch = \<lparr> center = (0, 0, 0), radius = 0 \<rparr>,
       camera = [],
       entityViewUpdates = [],
       trackedEntityChanged = [],
       selectedEntityChanged = [],
       renderRequests = 0,
       resolveCalls = [],
       promiseCount = 0,
       arrays = store,
       readyCallbacks = [],
       flights = 0,
       unhandledRejections = 0 \<rparr>"

subsection \<open>Promises and arrays\<close>

text \<open>
  A promise is settled by the first call of its \<open>resolve\<close>; later calls do nothing.
  \<open>outcome\<close> is the value the promise \<open>p\<close> has resolved to, \<open>None\<close> while it is pending.
\<close>

definition outcome :: "Viewer \<Rightarrow> nat \<Rightarrow> bool option" where
  "outcome viewer p = map_of (resolveCalls viewer) p"

definition resolutions :: "Viewer \<Rightarrow> nat \<Rightarrow> bool list" where
  "resolutions viewer p = map snd (filter (\<lambda>c. fst c = p) (resolveCalls viewer))"

text \<open>
  \<open>viewer._completeZoom(value)\<close>. The field is undefined until the first
  \<open>zoomToOrFly\<close>. Every call site runs after one (lemma \<open>installed_reachable\<close>), so
  the case \<open>None\<close>, where JavaScript would throw a \<open>TypeError\<close>, is never taken.
\<close>

definition call_completeZoom :: "bool \<Rightarrow> Viewer \<Rightarrow> Viewer" where
  "call_completeZoom v viewer =
     (case completeZoom viewer of
        None \<Rightarrow> viewer
      | Some p \<Rightarrow> viewer\<lparr> resolveCalls := resolveCalls viewer @ [(p, v)] \<rparr>)"

definition readArray :: "Viewer \<Rightarrow> nat \<Rightarrow> Entity list" where
  "readArray viewer a = (if a < length (arrays viewer) then arrays viewer ! a else [])"

text \<open>\<open>xs.slice(0)\<close> and the literal \<open>[x]\<close>: a new array object, at a fresh address.\<close>

definition newArray :: "Entity list \<Rightarrow> Viewer \<Rightarrow> nat \<times> Viewer" where
  "newArray xs viewer = (length (arrays viewer), viewer\<lparr> arrays := arrays viewer @ [xs] \<rparr>)"

definition slice0 :: "nat \<Rightarrow> Viewer \<Rightarrow> nat \<times> Viewer" where
  "slice0 a viewer = newArray (readArray viewer a) viewer"

text \<open>The caller assigns to its own array: elements added, removed or replaced.\<close>

definition mutateArray :: "nat \<Rightarrow> Entity list \<Rightarrow> Viewer \<Rightarrow> Viewer" where
  "mutateArray a xs viewer =
     (if a < length (arrays viewer) then viewer\<lparr> arrays := (arrays viewer)[a := xs] \<rparr>
      else viewer)"

subsection \<open>clearZoom, cancelZoom and the property setters\<close>

definition clearZoom :: "Viewer \<Rightarrow> Viewer" where
  "clearZoom viewer = viewer\<lparr> zoomPromise := None, zoomTarget := None, zoomOptions := None \<rparr>"

definition cancelZoom :: "Viewer \<Rightarrow> Viewer" where
  "cancelZoom viewer =
     (case zoomPromise viewer of
        None \<Rightarrow> viewer
      | Some zp \<Rightarrow> call_completeZoom False (clearZoom viewer))"

text \<open>The branch \<open>//Stop tracking\<close> of the \<open>trackedEntity\<close> setter.\<close>

definition stopTracking :: "Viewer \<Rightarrow> Viewer" where
  "stopTracking this =
     this\<lparr> needTrackedEntityUpdate := False,
            enableTranslate :=
              (if sceneMode this = COLUMBUS_VIEW \<or> sceneMode this = SCENE2D then True
               else enableTranslate this),
            enableTilt :=
              (if sceneMode this = COLUMBUS_VIEW \<or> sceneMode this = SCENE3D then True
               else enableTilt this),
            entityView := None,
            camera := camera this @ [lookAtTransform IDENTITY] \<rparr>"

definition hasPosition :: "Entity option \<Rightarrow> bool" where
  "hasPosition v = (case v of None \<Rightarrow> False | Some e \<Rightarrow> (case position e of None \<Rightarrow> False | Some p \<Rightarrow> True))"

definition set_trackedEntity :: "Entity option \<Rightarrow> Viewer \<Rightarrow> Viewer" where
  "set_trackedEntity v this =
     (if same_object (trackedEntity this) v then this
      else
        (let this1 = cancelZoom (this\<lparr> trackedEntity := v \<rparr>);
             this2 = (if hasPosition v then this1\<lparr> needTrackedEntityUpdate := True \<rparr>
                      else stopTracking this1)
         in this2\<lparr> trackedEntityChanged := trackedEntityChanged this2 @ [v],
                   renderRequests := Suc (renderRequests this2) \<rparr>))"

definition set_selectedEntity :: "Entity option \<Rightarrow> Viewer \<Rightarrow> Viewer" where
  "set_selectedEntity v this =
     (if same_object (selectedEntity this) v then this
      else this\<lparr> selectedEntity := v,
                 selectedEntityChanged := selectedEntityChanged this @ [v] \<rparr>)"

subsection \<open>zoomTo, flyTo and zoomToOrFly\<close>

text \<open>
  \<open>zoomToOrFly\<close> up to its \<open>return\<close>. An undefined target is \<open>None\<close>. The result is the
  number of the promise returned, or the error thrown, together with the viewer as the
  call leaves it. The continuation passed to \<open>Promise.resolve(zoomTarget).then\<close> runs
  later: it is \<open>normalizeZoomTarget\<close> below.
\<close>

definition zoomToOrFly ::
    "Viewer \<Rightarrow> Target option \<Rightarrow> ZoomOptions option \<Rightarrow> bool \<Rightarrow> (DeveloperError + nat) \<times> Viewer" where
  "zoomToOrFly that zoomTarget' options isFlight =
     (case zoomTarget' of
        None \<Rightarrow> (Inl (DeveloperError ''zoomTarget is required.''), that)
      | Some t \<Rightarrow>
          (let that1 = cancelZoom that;
               zp = promiseCount that1
           in (Inr zp,
               that1\<lparr> promiseCount := Suc zp,
                       completeZoom := Some zp,
                       zoomPromise := Some zp,
                       zoomIsFlight := isFlight,
                       zoomOptions := options,
                       renderRequests := Suc (renderRequests that1) \<rparr>)))"

definition Viewer_zoomTo ::
    "Viewer \<Rightarrow> Target option \<Rightarrow> HeadingPitchRange option \<Rightarrow> (DeveloperError + nat) \<times> Viewer" where
  "Viewer_zoomTo this target offset' =
     zoomToOrFly this target
       (Some \<lparr> offset = offset', duration = None, maximumHeight = None \<rparr>) False"

definition Viewer_flyTo ::
    "Viewer \<Rightarrow> Target option \<Rightarrow> ZoomOptions option \<Rightarrow> (DeveloperError + nat) \<times> Viewer" where
  "Viewer_flyTo this target options = zoomToOrFly this target options True"

definition setEntitiesTarget :: "nat \<times> Viewer \<Rightarrow> Viewer" where
  "setEntitiesTarget r = (snd r)\<lparr> zoomTarget := Some (TEntities (fst r)) \<rparr>"

text \<open>
  The continuation of \<open>Promise.resolve(zoomTarget)\<close> for the request whose promise is
  \<open>zp\<close>, run with the resolved target. For an imagery layer and for a data source that
  is loading it only registers further continuations (\<open>imageryPosition\<close> and
  \<open>loadingFinished\<close> below).
\<close>

definition normalizeZoomTarget :: "nat \<Rightarrow> Target \<Rightarrow> Viewer \<Rightarrow> Viewer" where
  "normalizeZoomTarget zp t that =
     (if zoomPromise that = Some zp then
        (case t of
           AnImageryLayer l \<Rightarrow> that
         | AVolumetric v \<Rightarrow> that\<lparr> zoomTarget := Some (TVolumetric v) \<rparr>
         | ADataSource ds \<Rightarrow>
             (if isLoading ds \<and> loadingEvent ds then that
              else setEntitiesTarget (slice0 (values (entities ds)) that))
         | AnArray a \<Rightarrow> setEntitiesTarget (slice0 a that)
         | AnEntityCollection c \<Rightarrow> setEntitiesTarget (slice0 (values c) that)
         | AnEntity e \<Rightarrow> setEntitiesTarget (newArray [e] that))
      else that)"

text \<open>The last \<open>.then\<close> of the imagery-layer chain, with the position computed.\<close>

definition imageryPosition :: "nat \<Rightarrow> Cartographic \<Rightarrow> Viewer \<Rightarrow> Viewer" where
  "imageryPosition zp pos that =
     (if zoomPromise that = Some zp then that\<lparr> zoomTarget := Some (TPosition pos) \<rparr> else that)"

text \<open>The listener on \<open>loadingEvent\<close> of a data source that was loading.\<close>

definition loadingFinished :: "nat \<Rightarrow> DataSource \<Rightarrow> Viewer \<Rightarrow> Viewer" where
  "loadingFinished zp ds that =
     (if zoomPromise that = Some zp then setEntitiesTarget (slice0 (values (entities ds)) that)
      else that)"

subsection \<open>updateZoomTarget\<close>

text \<open>
  The body of the \<open>.then\<close> continuation on a volumetric target's \<open>_readyPromise\<close>; it
  is the same in both branches. \<open>viewer._zoomIsFlight\<close> is read when it runs. Options
  are values here: the code writes the default offset into the options object itself,
  which an application that passes the same object to a later \<open>flyTo\<close> would see as
  that request's offset; this sharing is not modelled. It bears on the offset handed to
  the camera for a volumetric target only.
\<close>

definition zoomToVolumetric :: "Volumetric \<Rightarrow> ZoomOptions \<Rightarrow> Viewer \<Rightarrow> Viewer" where
  "zoomToVolumetric target zo viewer =
     (let bs = boundingSphere target;
          off = (case offset zo of
                   None \<Rightarrow> HeadingPitchRange 0.0 (- 0.5) (radius bs)
                 | Some h \<Rightarrow> h)
      in clearZoom
           (if zoomIsFlight viewer then
              viewer\<lparr> camera := camera viewer @
                         [flyToBoundingSphere bs (Some off) (duration zo) (maximumHeight zo)],
                      flights := Suc (flights viewer) \<rparr>
            else
              call_completeZoom True
                (viewer\<lparr> camera := camera viewer @
                           [viewBoundingSphere bs (Some off), lookAtTransform IDENTITY] \<rparr>)))"

text \<open>The branch \<open>target instanceof Cartographic\<close>.\<close>

definition zoomToPosition :: "Cartographic \<Rightarrow> ZoomOptions \<Rightarrow> Viewer \<Rightarrow> Viewer" where
  "zoomToPosition target zo viewer =
     clearZoom
       (if zoomIsFlight viewer then
          viewer\<lparr> camera := camera viewer @ [flyTo target (duration zo) (maximumHeight zo)],
                  flights := Suc (flights viewer) \<rparr>
        else
          call_completeZoom True
            (viewer\<lparr> camera := camera viewer @ [setView target (duration zo) (maximumHeight zo)] \<rparr>))"

text \<open>
  The \<open>for\<close> loop over the entities: \<open>None\<close> when it returns on a \<open>PENDING\<close> entity,
  otherwise the array \<open>boundingSpheres\<close>; with the scratch sphere as the loop leaves it.
\<close>

fun pollBoundingSpheres ::
    "Cesium \<Rightarrow> Entity list \<Rightarrow> BoundingSphere \<Rightarrow> BoundingSphere list
       \<Rightarrow> BoundingSphere list option \<times> BoundingSphere" where
  "pollBoundingSpheres cesium [] scratch acc = (Some acc, scratch)"
| "pollBoundingSpheres cesium (e # es) scratch acc =
     (case getBoundingSphere cesium (Some e) False of
        (state, b) \<Rightarrow>
          (let scratch' = (if state = DONE then b else scratch)
           in if state = PENDING then (None, scratch')
              else if state = FAILED then pollBoundingSpheres cesium es scratch' acc
              else pollBoundingSpheres cesium es scratch' (acc @ [scratch'])))"

text \<open>The rest of \<open>updateZoomTarget\<close>, for a target that is an array of entities.\<close>

definition zoomToEntities :: "Cesium \<Rightarrow> Entity list \<Rightarrow> ZoomOptions \<Rightarrow> Viewer \<Rightarrow> Viewer" where
  "zoomToEntities cesium es zo viewer =
     (case pollBoundingSpheres cesium es (boundingSphereScratch viewer) [] of
        (None, scratch) \<Rightarrow> viewer\<lparr> boundingSphereScratch := scratch \<rparr>
      | (Some boundingSpheres, scratch) \<Rightarrow>
          (let viewer1 = viewer\<lparr> boundingSphereScratch := scratch \<rparr>
           in if length boundingSpheres = 0 then cancelZoom viewer1
              else
                (let viewer2 = set_trackedEntity None viewer1;
                     bs = fromBoundingSpheres cesium boundingSpheres
                 in if zoomIsFlight viewer2 then
                      (let viewer3 = clearZoom viewer2
                       in viewer3\<lparr> camera := camera viewer3 @
                                     [flyToBoundingSphere bs (offset zo) (duration zo)
                                        (maximumHeight zo)],
                                   flights := Suc (flights viewer3) \<rparr>)
                    else
                      call_completeZoom True
                        (clearZoom
                           (viewer2\<lparr> camera := camera viewer2 @
                                        [viewBoundingSphere bs (offset zo),
                                         lookAtTransform IDENTITY] \<rparr>)))))"

definition updateZoomTarget :: "Cesium \<Rightarrow> Viewer \<Rightarrow> Viewer" where
  "updateZoomTarget cesium viewer =
     (case zoomTarget viewer of
        None \<Rightarrow> viewer
      | Some target \<Rightarrow>
          (if sceneMode viewer = MORPHING then viewer
           else
             (let zo = (case zoomOptions viewer of
                          None \<Rightarrow> \<lparr> offset = None, duration = None, maximumHeight = None \<rparr>
                        | Some z \<Rightarrow> z)
              in case target of
                   TVolumetric v \<Rightarrow>
                     (if kind v = Cesium3DTileset \<or> kind v = VoxelPrimitive then
                        viewer\<lparr> readyCallbacks := readyCallbacks viewer @ [ThenCatch v zo] \<rparr>
                      else
                        viewer\<lparr> readyCallbacks := readyCallbacks viewer @ [ThenOnly v zo] \<rparr>)
                 | TPosition c \<Rightarrow> zoomToPosition c zo viewer
                 | TEntities a \<Rightarrow> zoomToEntities cesium (readArray viewer a) zo viewer)))"

text \<open>
  The continuations registered on the ready promise \<open>rp\<close> run when it settles, in the
  order of registration. On fulfilment each runs its \<open>.then\<close> body. On rejection a
  \<open>ThenCatch\<close> continuation runs \<open>cancelZoom\<close>; a \<open>ThenOnly\<close> continuation has no
  handler, so the promise \<open>updateZoomTarget\<close> returned is rejected and nothing handles it.
\<close>

fun callbackPromise :: "ReadyCallback \<Rightarrow> nat" where
  "callbackPromise (ThenCatch v zo) = readyPromise v"
| "callbackPromise (ThenOnly v zo) = readyPromise v"

fun onFulfilled :: "ReadyCallback \<Rightarrow> Viewer \<Rightarrow> Viewer" where
  "onFulfilled (ThenCatch v zo) viewer = zoomToVolumetric v zo viewer"
| "onFulfilled (ThenOnly v zo) viewer = zoomToVolumetric v zo viewer"

fun onRejected :: "ReadyCallback \<Rightarrow> Viewer \<Rightarrow> Viewer" where
  "onRejected (ThenCatch v zo) viewer = cancelZoom viewer"
| "onRejected (ThenOnly v zo) viewer =
     viewer\<lparr> unhandledRejections := Suc (unhandledRejections viewer) \<rparr>"

fun runCallbacks :: "(ReadyCallback \<Rightarrow> Viewer \<Rightarrow> Viewer) \<Rightarrow> ReadyCallback list \<Rightarrow> Viewer \<Rightarrow> Viewer" where
  "runCallbacks f [] viewer = viewer"
| "runCallbacks f (c # cs) viewer = runCallbacks f cs (f c viewer)"

definition readySettled :: "nat \<Rightarrow> bool \<Rightarrow> Viewer \<Rightarrow> Viewer" where
  "readySettled rp fulfilled viewer =
     runCallbacks (if fulfilled then onFulfilled else onRejected)
       (filter (\<lambda>c. callbackPromise c = rp) (readyCallbacks viewer))
       (viewer\<lparr> readyCallbacks := filter (\<lambda>c. callbackPromise c \<noteq> rp) (readyCallbacks viewer) \<rparr>)"

text \<open>The \<open>complete\<close> and \<open>cancel\<close> callbacks of a camera flight, called by the camera.\<close>

definition flightComplete :: "Viewer \<Rightarrow> Viewer" where
  "flightComplete viewer =
     (if flights viewer = 0 then viewer
      else call_completeZoom True (viewer\<lparr> flights := flights viewer - 1 \<rparr>))"

definition flightCancel :: "Viewer \<Rightarrow> Viewer" where
  "flightCancel viewer =
     (if flights viewer = 0 then viewer
      else call_completeZoom False (viewer\<lparr> flights := flights viewer - 1 \<rparr>))"

subsection \<open>Tracking, data sources and the clock\<close>

definition updateTrackedEntity :: "Cesium \<Rightarrow> Viewer \<Rightarrow> Viewer" where
  "updateTrackedEntity cesium viewer =
     (if needTrackedEntityUpdate viewer then
        (case getValueOrUndefined cesium
                (case trackedEntity viewer of None \<Rightarrow> None | Some e \<Rightarrow> position e)
                (currentTime viewer) of
           None \<Rightarrow> viewer
         | Some currentPosition \<Rightarrow>
             (case getBoundingSphere cesium (trackedEntity viewer) False of
                (state, b) \<Rightarrow>
                  (let scratch = (if state = DONE then b else boundingSphereScratch viewer);
                       viewer1 = viewer\<lparr> boundingSphereScratch := scratch \<rparr>
                   in if state = PENDING then viewer1
                      else
                        viewer1\<lparr> enableTranslate :=
                                   (if sceneMode viewer = COLUMBUS_VIEW \<or> sceneMode viewer = SCENE2D
                                    then False else enableTranslate viewer),
                                 enableTilt :=
                                   (if sceneMode viewer = COLUMBUS_VIEW \<or> sceneMode viewer = SCENE3D
                                    then False else enableTilt viewer),
                                 entityView := trackedEntity viewer,
                                 entityViewUpdates := entityViewUpdates viewer @
                                   [(currentTime viewer,
                                     if state = FAILED then None else Some scratch)],
                                 needTrackedEntityUpdate := False \<rparr>)))
      else viewer)"

definition postRender :: "Cesium \<Rightarrow> Viewer \<Rightarrow> Viewer" where
  "postRender cesium this = updateTrackedEntity cesium (updateZoomTarget cesium this)"

text \<open>
  \<open>_dataSourceRemoved\<close>. Unsubscribing from \<open>collectionChanged\<close> touches no field of the
  viewer and is left out.
\<close>

definition dataSourceRemoved :: "DataSource \<Rightarrow> Viewer \<Rightarrow> Viewer" where
  "dataSourceRemoved dataSource this =
     (let entityCollection = entities dataSource;
          this1 = (case trackedEntity this of
                     None \<Rightarrow> this
                   | Some t \<Rightarrow>
                       (if same_object (getById entityCollection (id' t)) (Some t)
                        then set_trackedEntity None this else this))
      in case selectedEntity this1 of
           None \<Rightarrow> this1
         | Some s \<Rightarrow>
             (if same_object (getById entityCollection (id' s)) (Some s)
              then set_selectedEntity None this1 else this1))"

fun onEntityCollectionChanged :: "Entity list \<Rightarrow> Viewer \<Rightarrow> Viewer" where
  "onEntityCollectionChanged [] this = this"
| "onEntityCollectionChanged (removedObject # removed) this =
     (let this1 = (if same_object (trackedEntity this) (Some removedObject)
                   then set_trackedEntity None this else this);
          this2 = (if same_object (selectedEntity this1) (Some removedObject)
                   then set_selectedEntity None this1 else this1)
      in onEntityCollectionChanged removed this2)"

text \<open>\<open>_clearTrackedObject\<close>, the listener of \<open>scene.morphStart\<close>.\<close>

definition clearTrackedObject :: "Viewer \<Rightarrow> Viewer" where
  "clearTrackedObject this = set_trackedEntity None this"

text \<open>
  \<open>_onTick(clock)\<close>, with \<open>clock.currentTime\<close> as \<open>time\<close>. The last block of the
  function only assigns the locals \<open>position\<close> and \<open>enableCamera\<close>; what is left of it
  is the query's write to the scratch sphere.
\<close>

definition onTick :: "Cesium \<Rightarrow> JulianDate \<Rightarrow> Viewer \<Rightarrow> Viewer" where
  "onTick cesium time this =
     (let isUpdated = update cesium time;
          this1 = (if allowDataSourcesToSuspendAnimation this
                   then this\<lparr> canAnimate := isUpdated \<rparr> else this);
          this2 = (case entityView this1 of
                     None \<Rightarrow> this1
                   | Some view \<Rightarrow>
                       (case getBoundingSphere cesium (trackedEntity this1) False of
                          (trackedState, b) \<Rightarrow>
                            (if trackedState = DONE then
                               this1\<lparr> boundingSphereScratch := b,
                                      entityViewUpdates := entityViewUpdates this1 @ [(time, Some b)] \<rparr>
                             else this1)))
      in case selectedEntity this2 of
           None \<Rightarrow> this2
         | Some s \<Rightarrow>
             (if enableInfoOrSelection this2 \<and> isShowing cesium s \<and> isAvailable cesium s time then
                (case getBoundingSphere cesium (Some s) True of
                   (state, b) \<Rightarrow>
                     (if state = DONE then this2\<lparr> boundingSphereScratch := b \<rparr> else this2))
              else this2))"

section \<open>Histories of one Viewer\<close>

text \<open>
  Everything that can happen to a Viewer between two of its own steps: a call of its
  API by the application, a continuation run by the JavaScript runtime, a callback or
  event of the engine. The engine's answers of the moment travel with the event.
  \<open>TargetRejected\<close> is the rejection of a promise passed as target, or of a promise of
  the imagery-layer chain: \<open>zoomToOrFly\<close> attaches no handler to either, so the viewer
  stays as it is.
\<close>

datatype Event =
    ZoomToOrFly "Target option" "ZoomOptions option" bool
  | NormalizeZoomTarget nat Target
  | ImageryPosition nat Cartographic
  | LoadingFinished nat DataSource
  | TargetRejected nat
  | PostRender Cesium
  | ReadySettled nat bool
  | FlightComplete
  | FlightCancel
  | SetTrackedEntity "Entity option"
  | SetSelectedEntity "Entity option"
  | DataSourceRemoved DataSource
  | EntityCollectionChanged "Entity list"
  | MorphStart
  | ModeChanged SceneMode
  | Tick Cesium JulianDate
  | MutateArray nat "Entity list"

fun step :: "Event \<Rightarrow> Viewer \<Rightarrow> Viewer" where
  "step (ZoomToOrFly t options isFlight) v = snd (zoomToOrFly v t options isFlight)"
| "step (NormalizeZoomTarget zp t) v = normalizeZoomTarget zp t v"
| "step (ImageryPosition zp pos) v = imageryPosition zp pos v"
| "step (LoadingFinished zp ds) v = loadingFinished zp ds v"
| "step (TargetRejected zp) v = v\<lparr> unhandledRejections := Suc (unhandledRejections v) \<rparr>"
| "step (PostRender cesium) v = postRender cesium v"
| "step (ReadySettled rp fulfilled) v = readySettled rp fulfilled v"
| "step FlightComplete v = flightComplete v"
| "step FlightCancel v = flightCancel v"
| "step (SetTrackedEntity e) v = set_trackedEntity e v"
| "step (SetSelectedEntity e) v = set_selectedEntity e v"
| "step (DataSourceRemoved ds) v = dataSourceRemoved ds v"
| "step (EntityCollectionChanged removed) v = onEntityCollectionChanged removed v"
| "step MorphStart v = clearTrackedObject v"
| "step (ModeChanged m) v = v\<lparr> sceneMode := m \<rparr>"
| "step (Tick cesium time) v = onTick cesium time (v\<lparr> currentTime := time \<rparr>)"
| "step (MutateArray a xs) v = mutateArray a xs v"

fun run :: "Event list \<Rightarrow> Viewer \<Rightarrow> Viewer" where
  "run [] v = v"
| "run (e # es) v = run es (step e v)"

section \<open>The request fields\<close>

text \<open>
  The shape of the request fields in the states a viewer can be in (lemma
  \<open>installed_reachable\<close> below): without a promise installed no target is installed; a
  promise that is installed is the one \<open>_completeZoom\<close> resolves; flights and
  ready-continuations only exist once \<open>_completeZoom\<close> is defined.
\<close>

definition installed :: "Viewer \<Rightarrow> bool" where
  "installed v =
     ((zoomPromise v = None \<and> zoomTarget v = None
       \<or> zoomPromise v \<noteq> None \<and> completeZoom v = zoomPromise v)
      \<and> (completeZoom v \<noteq> None \<or> flights v = 0 \<and> readyCallbacks v = []))"

section \<open>Sample values\<close>

text \<open>Entities, an engine and arrays used to run the definitions on concrete inputs.\<close>

definition entityA :: Entity where
  "entityA = \<lparr> ref = 1, id' = ''a'', position = Some 7 \<rparr>"

definition entityB :: Entity where
  "entityB = \<lparr> ref = 2, id' = ''b'', position = None \<rparr>"

definition entityC :: Entity where
  "entityC = \<lparr> ref = 3, id' = ''c'', position = Some 9 \<rparr>"

definition sphereOf :: "nat \<Rightarrow> BoundingSphere" where
  "sphereOf n = \<lparr> center = (0, 0, 0), radius = real n \<rparr>"

text \<open>
  An engine whose display answers every bounding-sphere query by the state \<open>st\<close> gives
  for the entity's \<open>ref\<close>, with a sphere whose radius is that \<open>ref\<close>, and whose
  \<open>fromBoundingSpheres\<close> adds the radii up.
\<close>

definition sampleCesium :: "(nat \<Rightarrow> BoundingSphereState) \<Rightarrow> Cesium" where
  "sampleCesium st =
     \<lparr> getBoundingSphere =
         (\<lambda>e allowPartial. case e of
            None \<Rightarrow> (FAILED, sphereOf 0)
          | Some x \<Rightarrow> (st (ref x), sphereOf (ref x))),
       update = (\<lambda>t. True),
       fromBoundingSpheres = (\<lambda>bs. \<lparr> center = (0, 0, 0), radius = sum_list (map radius bs) \<rparr>),
       getValueOrUndefined = (\<lambda>p t. case p of None \<Rightarrow> None | Some q \<Rightarrow> Some (0, 0, 0)),
       isShowing = (\<lambda>e. True),
       isAvailable = (\<lambda>e t. True) \<rparr>"

definition sampleDataSource :: DataSource where
  "sampleDataSource =
     \<lparr> isLoading = False, loadingEvent = True,
       entities = \<lparr> values = 0, getById = [''a'' \<mapsto> entityA, ''c'' \<mapsto> entityC] \<rparr> \<rparr>"

text \<open>
  A viewer in 3D whose application holds the array \<open>[entityA, entityB]\<close> at address 0 and
  has asked to view it (by flight or not); the request has been normalised.
\<close>

definition listRequest :: "bool \<Rightarrow> Viewer" where
  "listRequest isFlight =
     run [ZoomToOrFly (Some (AnArray 0)) None isFlight, NormalizeZoomTarget 0 (AnArray 0)]
       (newViewer SCENE3D [[entityA, entityB]])"

text \<open>A viewer that tracks \<open>entityA\<close>, after the render pass that built the entity view.\<close>

definition trackingA :: Viewer where
  "trackingA =
     run [SetTrackedEntity (Some entityA), PostRender (sampleCesium (\<lambda>n. DONE))]
       (newViewer SCENE3D [])"

text \<open>A point cloud and a tileset, each with its own ready promise.\<close>

definition samplePointCloud :: Volumetric where
  "samplePointCloud = \<lparr> kind = TimeDynamicPointCloud, readyPromise = 5, boundingSphere = sphereOf 4 \<rparr>"

definition sampleTileset :: Volumetric where
  "sampleTileset = \<lparr> kind = Cesium3DTileset, readyPromise = 6, boundingSphere = sphereOf 4 \<rparr>"

text \<open>
  \<open>zoomTo(vol)\<close> on a new viewer, the normalisation, one render pass, then the
  rejection of the ready promise of \<open>vol\<close>.
\<close>

definition readinessRejected :: "Volumetric \<Rightarrow> Viewer" where
  "readinessRejected vol =
     run [ZoomToOrFly (Some (AVolumetric vol)) None False,
          NormalizeZoomTarget 0 (AVolumetric vol),
          PostRender (sampleCesium (\<lambda>n. DONE)),
          ReadySettled (readyPromise vol) False]
       (newViewer SCENE3D [])"

text \<open>
  \<open>flyTo([entityA, entityB])\<close>, the normalisation, the render pass that starts the
  flight, and then, during the flight, \<open>zoomTo(entityC)\<close>.
\<close>

definition supersededFlight :: Viewer where
  "supersededFlight =
     run [ZoomToOrFly (Some (AnArray 0)) None True,
          NormalizeZoomTarget 0 (AnArray 0),
          PostRender (sampleCesium (\<lambda>n. DONE)),
          ZoomToOrFly (Some (AnEntity entityC)) None False]
       (newViewer SCENE3D [[entityA, entityB]])"

text \<open>
  \<open>flyTo([entityA, entityB])\<close> and the render pass that starts its flight; during the
  flight \<open>zoomTo([entityA, entityB])\<close>, its normalisation and a render pass on which
  the entities report \<open>PENDING\<close>; then the camera calls \<open>complete\<close> of the first flight.
\<close>

definition staleCompletion :: Viewer where
  "staleCompletion =
     run [ZoomToOrFly (Some (AnArray 0)) None True,
          NormalizeZoomTarget 0 (AnArray 0),
          PostRender (sampleCesium (\<lambda>n. DONE)),
          ZoomToOrFly (Some (AnArray 0)) None False,
          NormalizeZoomTarget 1 (AnArray 0),
          PostRender (sampleCesium (\<lambda>n. PENDING)),
          FlightComplete]
       (newViewer SCENE3D [[entityA, entityB]])"

text \<open>
  A data source that is loading, whose entity collection keeps its entities in the
  array at address 0; and \<open>zoomTo\<close> of it: the normalisation registers the listener,
  which runs when the loading has finished.
\<close>

definition loadingSource :: DataSource where
  "loadingSource = sampleDataSource\<lparr> isLoading := True \<rparr>"

definition sourceRequest :: Viewer where
  "sourceRequest =
     run [ZoomToOrFly (Some (ADataSource loadingSource)) None False,
          NormalizeZoomTarget 0 (ADataSource loadingSource),
          LoadingFinished 0 loadingSource]
       (newViewer SCENE3D [[entityA, entityB]])"

text \<open>
  \<open>viewer.trackedEntity = entityC\<close> and the render pass that starts the tracking,
  then \<open>zoomTo\<close> or \<open>flyTo\<close> of \<open>[entityA, entityB]\<close>, the normalisation, and a
  render pass on which both entities report \<open>DONE\<close>.
\<close>

definition zoomWhileTracking :: "bool \<Rightarrow> Viewer" where
  "zoomWhileTracking isFlight =
     run [SetTrackedEntity (Some entityC),
          PostRender (sampleCesium (\<lambda>n. DONE)),
          ZoomToOrFly (Some (AnArray 0)) None isFlight,
          NormalizeZoomTarget 0 (AnArray 0),
          PostRender (sampleCesium (\<lambda>n. DONE))]
       (newViewer SCENE3D [[entityA, entityB]])"

section \<open>What the operations leave alone\<close>

lemma call_completeZoom_fields [simp]:
  "zoomPromise (call_completeZoom b v) = zoomPromise v"
  "zoomTarget (call_completeZoom b v) = zoomTarget v"
  "zoomOptions (call_completeZoom b v) = zoomOptions v"
  "zoomIsFlight (call_completeZoom b v) = zoomIsFlight v"
  "completeZoom (call_completeZoom b v) = completeZoom v"
  "promiseCount (call_completeZoom b v) = promiseCount v"
  "trackedEntity (call_completeZoom b v) = trackedEntity v"
  "selectedEntity (call_completeZoom b v) = selectedEntity v"
  "entityView (call_completeZoom b v) = entityView v"
  "needTrackedEntityUpdate (call_completeZoom b v) = needTrackedEntityUpdate v"
  "sceneMode (call_completeZoom b v) = sceneMode v"
  "enableTranslate (call_completeZoom b v) = enableTranslate v"
  "enableTilt (call_completeZoom b v) = enableTilt v"
  "camera (call_completeZoom b v) = camera v"
  "arrays (call_completeZoom b v) = arrays v"
  "flights (call_completeZoom b v) = flights v"
  "entityViewUpdates (call_completeZoom b v) = entityViewUpdates v"
  by (simp_all add: call_completeZoom_def split: option.splits)

lemma cancelZoom_fields [simp]:
  "zoomPromise (cancelZoom v) = None"
  "zoomIsFlight (cancelZoom v) = zoomIsFlight v"
  "completeZoom (cancelZoom v) = completeZoom v"
  "promiseCount (cancelZoom v) = promiseCount v"
  "trackedEntity (cancelZoom v) = trackedEntity v"
  "selectedEntity (cancelZoom v) = selectedEntity v"
  "entityView (cancelZoom v) = entityView v"
  "needTrackedEntityUpdate (cancelZoom v) = needTrackedEntityUpdate v"
  "sceneMode (cancelZoom v) = sceneMode v"
  "enableTranslate (cancelZoom v) = enableTranslate v"
  "enableTilt (cancelZoom v) = enableTilt v"
  "camera (cancelZoom v) = camera v"
  "arrays (cancelZoom v) = arrays v"
  "flights (cancelZoom v) = flights v"
  "entityViewUpdates (cancelZoom v) = entityViewUpdates v"
  by (simp_all add: cancelZoom_def clearZoom_def split: option.splits)

section \<open>A view request without a target\<close>

text \<open>
  Claim C4. \<open>zoomTo\<close>, \<open>flyTo\<close> and \<open>zoomToOrFly\<close> called with an undefined target throw a
  \<open>DeveloperError\<close> before anything is written: the viewer the call leaves is the viewer
  it found, so a pending request keeps its unresolved outcome, its target, its options
  and its flight flag.
\<close>

theorem zoomToOrFly_undefined_target:
  "zoomToOrFly that None options isFlight = (Inl (DeveloperError ''zoomTarget is required.''), that)
   \<and> Viewer_zoomTo that None off = (Inl (DeveloperError ''zoomTarget is required.''), that)
   \<and> Viewer_flyTo that None options = (Inl (DeveloperError ''zoomTarget is required.''), that)"
  by (simp add: zoomToOrFly_def Viewer_zoomTo_def Viewer_flyTo_def)

section \<open>Assigning the tracked entity\<close>

text \<open>
  Claim C7. Assigning to \<open>trackedEntity\<close> a value that is undefined or has no position,
  and is not the entity tracked now, clears the needs-update flag, drops the entity
  view, enables translation in Columbus view and 2D and tilt in Columbus view and 3D
  (leaving each flag as it was in the other modes), and resets the camera transform to
  the identity.
\<close>

theorem set_trackedEntity_stops_tracking:
  assumes "\<not> hasPosition v" and "\<not> same_object (trackedEntity this) v"
  shows "needTrackedEntityUpdate (set_trackedEntity v this) = False
       \<and> entityView (set_trackedEntity v this) = None
       \<and> enableTranslate (set_trackedEntity v this) =
           (sceneMode this = COLUMBUS_VIEW \<or> sceneMode this = SCENE2D \<or> enableTranslate this)
       \<and> enableTilt (set_trackedEntity v this) =
           (sceneMode this = COLUMBUS_VIEW \<or> sceneMode this = SCENE3D \<or> enableTilt this)
       \<and> camera (set_trackedEntity v this) = camera this @ [lookAtTransform IDENTITY]
       \<and> trackedEntity (set_trackedEntity v this) = v"
  using assms by (simp add: set_trackedEntity_def stopTracking_def Let_def)

text \<open>
  In Columbus view, with \<open>entityA\<close> tracked, its view built and both controls disabled,
  assigning \<open>entityB\<close> (which has no position) stops the tracking.
\<close>

theorem set_trackedEntity_stops_tracking_witness:
  "\<not> hasPosition (Some entityB)
   \<and> \<not> same_object (Some entityA) (Some entityB)
   \<and> needTrackedEntityUpdate
        (set_trackedEntity (Some entityB)
           ((newViewer COLUMBUS_VIEW [])\<lparr> trackedEntity := Some entityA, entityView := Some entityA,
              needTrackedEntityUpdate := True, enableTranslate := False, enableTilt := False \<rparr>)) = False
   \<and> entityView
        (set_trackedEntity (Some entityB)
           ((newViewer COLUMBUS_VIEW [])\<lparr> trackedEntity := Some entityA, entityView := Some entityA,
              needTrackedEntityUpdate := True, enableTranslate := False, enableTilt := False \<rparr>)) = None
   \<and> enableTranslate
        (set_trackedEntity (Some entityB)
           ((newViewer COLUMBUS_VIEW [])\<lparr> trackedEntity := Some entityA, entityView := Some entityA,
              needTrackedEntityUpdate := True, enableTranslate := False, enableTilt := False \<rparr>))
   \<and> enableTilt
        (set_trackedEntity (Some entityB)
           ((newViewer COLUMBUS_VIEW [])\<lparr> trackedEntity := Some entityA, entityView := Some entityA,
              needTrackedEntityUpdate := True, enableTranslate := False, enableTilt := False \<rparr>))
   \<and> camera
        (set_trackedEntity (Some entityB)
           ((newViewer COLUMBUS_VIEW [])\<lparr> trackedEntity := Some entityA, entityView := Some entityA,
              needTrackedEntityUpdate := True, enableTranslate := False, enableTilt := False \<rparr>))
       = [lookAtTransform IDENTITY]"
proof -
  have h1: "\<not> hasPosition (Some entityB)"
    by (simp add: hasPosition_def entityB_def)
  have h2: "\<not> same_object
              (trackedEntity ((newViewer COLUMBUS_VIEW [])\<lparr> trackedEntity := Some entityA,
                 entityView := Some entityA, needTrackedEntityUpdate := True,
                 enableTranslate := False, enableTilt := False \<rparr>))
              (Some entityB)"
    by (simp add: same_object_def entityA_def entityB_def)
  show ?thesis
    using h1 set_trackedEntity_stops_tracking [OF h1 h2]
    by (simp add: newViewer_def same_object_def entityA_def entityB_def)
qed

lemma set_trackedEntity_fields [simp]:
  "selectedEntity (set_trackedEntity x v) = selectedEntity v"
  "zoomIsFlight (set_trackedEntity x v) = zoomIsFlight v"
  "completeZoom (set_trackedEntity x v) = completeZoom v"
  "promiseCount (set_trackedEntity x v) = promiseCount v"
  "sceneMode (set_trackedEntity x v) = sceneMode v"
  "arrays (set_trackedEntity x v) = arrays v"
  "flights (set_trackedEntity x v) = flights v"
  "entityViewUpdates (set_trackedEntity x v) = entityViewUpdates v"
  by (simp_all add: set_trackedEntity_def stopTracking_def Let_def)

lemma set_selectedEntity_fields [simp]:
  "trackedEntity (set_selectedEntity x v) = trackedEntity v"
  "zoomPromise (set_selectedEntity x v) = zoomPromise v"
  "zoomTarget (set_selectedEntity x v) = zoomTarget v"
  "completeZoom (set_selectedEntity x v) = completeZoom v"
  "promiseCount (set_selectedEntity x v) = promiseCount v"
  "resolveCalls (set_selectedEntity x v) = resolveCalls v"
  "arrays (set_selectedEntity x v) = arrays v"
  by (simp_all add: set_selectedEntity_def)

lemma set_trackedEntity_None [simp]:
  "trackedEntity (set_trackedEntity None v) = None"
  by (cases "trackedEntity v")
     (simp_all add: set_trackedEntity_def same_object_def hasPosition_def stopTracking_def Let_def)

lemma set_selectedEntity_None [simp]:
  "selectedEntity (set_selectedEntity None v) = None"
  by (cases "selectedEntity v") (simp_all add: set_selectedEntity_def same_object_def)

lemma camera_set_trackedEntity_None:
  "camera (set_trackedEntity None w) =
     camera w @ (if trackedEntity w = None then [] else [lookAtTransform IDENTITY])"
  by (cases "trackedEntity w")
     (simp_all add: set_trackedEntity_def same_object_def hasPosition_def stopTracking_def Let_def)

text \<open>The definitions needed to run the model on the sample values.\<close>

lemmas sample_defs =
  entityA_def entityB_def entityC_def sphereOf_def sampleCesium_def sampleDataSource_def
  listRequest_def trackingA_def newViewer_def loadingSource_def sourceRequest_def

lemmas viewer_defs =
  same_object_def hasPosition_def outcome_def resolutions_def call_completeZoom_def
  readArray_def newArray_def slice0_def mutateArray_def clearZoom_def cancelZoom_def
  stopTracking_def set_trackedEntity_def set_selectedEntity_def zoomToOrFly_def
  setEntitiesTarget_def normalizeZoomTarget_def imageryPosition_def loadingFinished_def
  zoomToVolumetric_def zoomToPosition_def zoomToEntities_def updateZoomTarget_def
  readySettled_def flightComplete_def flightCancel_def updateTrackedEntity_def
  postRender_def dataSourceRemoved_def clearTrackedObject_def onTick_def Let_def

section \<open>Removing a data source\<close>



section \<open>The clock tick\<close>

text \<open>
  Claim C9. On a clock tick with an entity view in place, the bounding sphere of the
  tracked entity is queried (without partial results) and the entity view is updated,
  with the tick's time and that sphere, exactly when the query answers \<open>DONE\<close>; on
  \<open>PENDING\<close> and \<open>FAILED\<close> the tick makes no call of \<open>EntityView.update\<close>.
\<close>

theorem onTick_updates_view_only_when_DONE:
  assumes "entityView this = Some view"
  shows "entityViewUpdates (onTick cesium time this) =
           (if fst (getBoundingSphere cesium (trackedEntity this) False) = DONE
            then entityViewUpdates this @
                   [(time, Some (snd (getBoundingSphere cesium (trackedEntity this) False)))]
            else entityViewUpdates this)"
  using assms by (simp add: onTick_def Let_def split: option.splits prod.splits)

text \<open>
  While \<open>entityA\<close> is tracked, a tick at time 5 whose query answers \<open>DONE\<close> updates the
  view with the sphere of \<open>entityA\<close>; a tick whose query answers \<open>PENDING\<close> or \<open>FAILED\<close>
  leaves the list of updates as it was.
\<close>

theorem onTick_updates_view_only_when_DONE_witness:
  "entityView trackingA = Some entityA
   \<and> entityViewUpdates (onTick (sampleCesium (\<lambda>n. DONE)) 5 trackingA)
       = entityViewUpdates trackingA @ [(5, Some (sphereOf 1))]
   \<and> entityViewUpdates (onTick (sampleCesium (\<lambda>n. PENDING)) 5 trackingA)
       = entityViewUpdates trackingA
   \<and> entityViewUpdates (onTick (sampleCesium (\<lambda>n. FAILED)) 5 trackingA)
       = entityViewUpdates trackingA"
proof -
  have h: "entityView trackingA = Some entityA"
    by (simp add: sample_defs viewer_defs)
  have t: "trackedEntity trackingA = Some entityA"
    by (simp add: sample_defs viewer_defs)
  show ?thesis
    using h t
      onTick_updates_view_only_when_DONE [OF h, of "sampleCesium (\<lambda>n. DONE)" 5]
      onTick_updates_view_only_when_DONE [OF h, of "sampleCesium (\<lambda>n. PENDING)" 5]
      onTick_updates_view_only_when_DONE [OF h, of "sampleCesium (\<lambda>n. FAILED)" 5]
    by (simp add: sampleCesium_def entityA_def sphereOf_def)
qed


section \<open>Which promise a step can resolve\<close>

lemma resolutions_update [simp]:
  "resolutions (allowDataSourcesToSuspendAnimation_update f0 v) p = resolutions v p"
  "resolutions (enableInfoOrSelection_update f1 v) p = resolutions v p"
  "resolutions (entityView_update f2 v) p = resolutions v p"
  "resolutions (trackedEntity_update f3 v) p = resolutions v p"
  "resolutions (needTrackedEntityUpdate_update f4 v) p = resolutions v p"
  "resolutions (selectedEntity_update f5 v) p = resolutions v p"
  "resolutions (zoomIsFlight_update f6 v) p = resolutions v p"
  "resolutions (zoomTarget_update f7 v) p = resolutions v p"
  "resolutions (zoomPromise_update f8 v) p = resolutions v p"
  "resolutions (zoomOptions_update f9 v) p = resolutions v p"
  "resolutions (completeZoom_update f10 v) p = resolutions v p"
  "resolutions (sceneMode_update f11 v) p = resolutions v p"
  "resolutions (enableTranslate_update f12 v) p = resolutions v p"
  "resolutions (enableTilt_update f13 v) p = resolutions v p"
  "resolutions (canAnimate_update f14 v) p = resolutions v p"
  "resolutions (currentTime_update f15 v) p = resolutions v p"
  "resolutions (boundingSphereScratch_update f16 v) p = resolutions v p"
  "resolutions (camera_update f17 v) p = resolutions v p"
  "resolutions (entityViewUpdates_update f18 v) p = resolutions v p"
  "resolutions (trackedEntityChanged_update f19 v) p = resolutions v p"
  "resolutions (selectedEntityChanged_update f20 v) p = resolutions v p"
  "resolutions (renderRequests_update f21 v) p = resolutions v p"
  "resolutions (promiseCount_update f22 v) p = resolutions v p"
  "resolutions (arrays_update f23 v) p = resolutions v p"
  "resolutions (readyCallbacks_update f24 v) p = resolutions v p"
  "resolutions (flights_update f25 v) p = resolutions v p"
  "resolutions (unhandledRejections_update f26 v) p = resolutions v p"
  by (simp_all add: resolutions_def)

lemma outcome_resolutions:
  "outcome v p = (case resolutions v p of [] \<Rightarrow> None | b # bs \<Rightarrow> Some b)"
proof -
  have "map_of xs p = (case map snd (filter (\<lambda>c. fst c = p) xs) of [] \<Rightarrow> None | b # bs \<Rightarrow> Some b)"
    for xs :: "(nat \<times> bool) list"
    by (induction xs) auto
  then show ?thesis
    by (simp add: outcome_def resolutions_def)
qed

lemma call_completeZoom_quiet [simp]:
  "completeZoom v \<noteq> Some p \<Longrightarrow> resolutions (call_completeZoom b v) p = resolutions v p"
  by (auto simp: call_completeZoom_def resolutions_def split: option.splits)

lemma clearZoom_quiet [simp]:
  "promiseCount (clearZoom v) = promiseCount v"
  "completeZoom (clearZoom v) = completeZoom v"
  "resolutions (clearZoom v) p = resolutions v p"
  by (simp_all add: clearZoom_def)

lemma cancelZoom_quiet [simp]:
  "completeZoom v \<noteq> Some p \<Longrightarrow> resolutions (cancelZoom v) p = resolutions v p"
  by (simp add: cancelZoom_def split: option.splits)

lemma set_trackedEntity_quiet [simp]:
  "completeZoom v \<noteq> Some p \<Longrightarrow> resolutions (set_trackedEntity x v) p = resolutions v p"
  by (simp add: set_trackedEntity_def stopTracking_def Let_def)

lemma set_selectedEntity_quiet [simp]:
  "resolutions (set_selectedEntity x v) p = resolutions v p"
  by (simp add: set_selectedEntity_def)

lemma normalizeZoomTarget_quiet [simp]:
  "promiseCount (normalizeZoomTarget zp t v) = promiseCount v"
  "completeZoom (normalizeZoomTarget zp t v) = completeZoom v"
  "resolutions (normalizeZoomTarget zp t v) p = resolutions v p"
  by (simp_all add: normalizeZoomTarget_def setEntitiesTarget_def slice0_def newArray_def
      split: Target.splits)

lemma imageryPosition_quiet [simp]:
  "promiseCount (imageryPosition zp c v) = promiseCount v"
  "completeZoom (imageryPosition zp c v) = completeZoom v"
  "resolutions (imageryPosition zp c v) p = resolutions v p"
  by (simp_all add: imageryPosition_def)

lemma loadingFinished_quiet [simp]:
  "promiseCount (loadingFinished zp ds v) = promiseCount v"
  "completeZoom (loadingFinished zp ds v) = completeZoom v"
  "resolutions (loadingFinished zp ds v) p = resolutions v p"
  by (simp_all add: loadingFinished_def setEntitiesTarget_def slice0_def newArray_def)

lemma zoomToVolumetric_quiet [simp]:
  "promiseCount (zoomToVolumetric t zo v) = promiseCount v"
  "completeZoom (zoomToVolumetric t zo v) = completeZoom v"
  "completeZoom v \<noteq> Some p \<Longrightarrow> resolutions (zoomToVolumetric t zo v) p = resolutions v p"
  by (simp_all add: zoomToVolumetric_def Let_def)

lemma zoomToPosition_quiet [simp]:
  "promiseCount (zoomToPosition c zo v) = promiseCount v"
  "completeZoom (zoomToPosition c zo v) = completeZoom v"
  "completeZoom v \<noteq> Some p \<Longrightarrow> resolutions (zoomToPosition c zo v) p = resolutions v p"
  by (simp_all add: zoomToPosition_def)

lemma zoomToEntities_quiet [simp]:
  "promiseCount (zoomToEntities cesium es zo v) = promiseCount v"
  "completeZoom (zoomToEntities cesium es zo v) = completeZoom v"
  "completeZoom v \<noteq> Some p \<Longrightarrow> resolutions (zoomToEntities cesium es zo v) p = resolutions v p"
  by (simp_all add: zoomToEntities_def Let_def split: option.splits prod.splits)

lemma updateZoomTarget_quiet [simp]:
  "promiseCount (updateZoomTarget cesium v) = promiseCount v"
  "completeZoom (updateZoomTarget cesium v) = completeZoom v"
  "completeZoom v \<noteq> Some p \<Longrightarrow> resolutions (updateZoomTarget cesium v) p = resolutions v p"
  by (simp_all add: updateZoomTarget_def Let_def split: option.splits ZoomTarget.splits)

lemma updateTrackedEntity_quiet [simp]:
  "promiseCount (updateTrackedEntity cesium v) = promiseCount v"
  "completeZoom (updateTrackedEntity cesium v) = completeZoom v"
  "resolutions (updateTrackedEntity cesium v) p = resolutions v p"
  by (simp_all add: updateTrackedEntity_def Let_def split: option.splits prod.splits)

lemma onFulfilled_quiet [simp]:
  "promiseCount (onFulfilled c v) = promiseCount v"
  "completeZoom (onFulfilled c v) = completeZoom v"
  "completeZoom v \<noteq> Some p \<Longrightarrow> resolutions (onFulfilled c v) p = resolutions v p"
  by (cases c; simp)+

lemma onRejected_quiet [simp]:
  "promiseCount (onRejected c v) = promiseCount v"
  "completeZoom (onRejected c v) = completeZoom v"
  "completeZoom v \<noteq> Some p \<Longrightarrow> resolutions (onRejected c v) p = resolutions v p"
  by (cases c; simp)+

lemma runCallbacks_quiet:
  assumes "\<And>c w. promiseCount (f c w) = promiseCount w"
    and "\<And>c w. completeZoom (f c w) = completeZoom w"
    and "\<And>c w. completeZoom w \<noteq> Some p \<Longrightarrow> resolutions (f c w) p = resolutions w p"
  shows "promiseCount (runCallbacks f cs v) = promiseCount v
       \<and> completeZoom (runCallbacks f cs v) = completeZoom v
       \<and> (completeZoom v \<noteq> Some p \<longrightarrow> resolutions (runCallbacks f cs v) p = resolutions v p)"
  by (induction cs arbitrary: v) (simp_all add: assms)

lemma readySettled_quiet [simp]:
  "promiseCount (readySettled rp ok v) = promiseCount v"
  "completeZoom (readySettled rp ok v) = completeZoom v"
  "completeZoom v \<noteq> Some p \<Longrightarrow> resolutions (readySettled rp ok v) p = resolutions v p"
  using runCallbacks_quiet [of onFulfilled p] runCallbacks_quiet [of onRejected p]
  by (simp_all add: readySettled_def)

lemma flight_quiet [simp]:
  "promiseCount (flightComplete v) = promiseCount v"
  "completeZoom (flightComplete v) = completeZoom v"
  "completeZoom v \<noteq> Some p \<Longrightarrow> resolutions (flightComplete v) p = resolutions v p"
  "promiseCount (flightCancel v) = promiseCount v"
  "completeZoom (flightCancel v) = completeZoom v"
  "completeZoom v \<noteq> Some p \<Longrightarrow> resolutions (flightCancel v) p = resolutions v p"
  by (simp_all add: flightComplete_def flightCancel_def)

lemma dataSourceRemoved_quiet [simp]:
  "promiseCount (dataSourceRemoved ds v) = promiseCount v"
  "completeZoom (dataSourceRemoved ds v) = completeZoom v"
  "completeZoom v \<noteq> Some p \<Longrightarrow> resolutions (dataSourceRemoved ds v) p = resolutions v p"
  by (simp_all add: dataSourceRemoved_def Let_def split: option.splits)

lemma onEntityCollectionChanged_quiet:
  "promiseCount (onEntityCollectionChanged removed v) = promiseCount v
   \<and> completeZoom (onEntityCollectionChanged removed v) = completeZoom v
   \<and> (completeZoom v \<noteq> Some p \<longrightarrow>
        resolutions (onEntityCollectionChanged removed v) p = resolutions v p)"
  by (induction removed arbitrary: v) (simp_all add: Let_def)

lemma onTick_quiet [simp]:
  "promiseCount (onTick cesium time v) = promiseCount v"
  "completeZoom (onTick cesium time v) = completeZoom v"
  "resolutions (onTick cesium time v) p = resolutions v p"
  by (simp_all add: onTick_def Let_def split: option.splits prod.splits)

lemma mutateArray_quiet [simp]:
  "promiseCount (mutateArray a xs v) = promiseCount v"
  "completeZoom (mutateArray a xs v) = completeZoom v"
  "resolutions (mutateArray a xs v) p = resolutions v p"
  by (simp_all add: mutateArray_def)

text \<open>
  A promise that is no longer the one \<open>_completeZoom\<close> resolves stays out of reach: no
  step calls its \<open>resolve\<close>, and no step makes \<open>_completeZoom\<close> point to it again.
\<close>

lemma step_superseded:
  assumes "p < promiseCount v" and "completeZoom v \<noteq> Some p"
  shows "p < promiseCount (step e v) \<and> completeZoom (step e v) \<noteq> Some p
       \<and> resolutions (step e v) p = resolutions v p"
proof (cases e)
  case (ZoomToOrFly t options isFlight)
  with assms show ?thesis
    by (cases t) (simp_all add: zoomToOrFly_def Let_def)
next
  case (EntityCollectionChanged removed)
  with assms onEntityCollectionChanged_quiet [of removed v p] show ?thesis
    by simp
qed (use assms in \<open>simp_all add: postRender_def clearTrackedObject_def\<close>)

lemma run_superseded:
  "p < promiseCount v \<Longrightarrow> completeZoom v \<noteq> Some p \<Longrightarrow>
   p < promiseCount (run es v) \<and> completeZoom (run es v) \<noteq> Some p
   \<and> resolutions (run es v) p = resolutions v p"
proof (induction es arbitrary: v)
  case Nil
  then show ?case by simp
next
  case (Cons e es)
  from step_superseded [OF Cons.prems, of e] Cons.IH [of "step e v"]
  show ?case by simp
qed

section \<open>The request fields in reachable states\<close>

lemma installed_update [simp]:
  "installed (allowDataSourcesToSuspendAnimation_update f0 v) = installed v"
  "installed (enableInfoOrSelection_update f1 v) = installed v"
  "installed (entityView_update f2 v) = installed v"
  "installed (trackedEntity_update f3 v) = installed v"
  "installed (needTrackedEntityUpdate_update f4 v) = installed v"
  "installed (selectedEntity_update f5 v) = installed v"
  "installed (zoomIsFlight_update f6 v) = installed v"
  "installed (zoomOptions_update f7 v) = installed v"
  "installed (sceneMode_update f8 v) = installed v"
  "installed (enableTranslate_update f9 v) = installed v"
  "installed (enableTilt_update f10 v) = installed v"
  "installed (canAnimate_update f11 v) = installed v"
  "installed (currentTime_update f12 v) = installed v"
  "installed (boundingSphereScratch_update f13 v) = installed v"
  "installed (camera_update f14 v) = installed v"
  "installed (entityViewUpdates_update f15 v) = installed v"
  "installed (trackedEntityChanged_update f16 v) = installed v"
  "installed (selectedEntityChanged_update f17 v) = installed v"
  "installed (renderRequests_update f18 v) = installed v"
  "installed (resolveCalls_update f19 v) = installed v"
  "installed (promiseCount_update f20 v) = installed v"
  "installed (arrays_update f21 v) = installed v"
  "installed (unhandledRejections_update f22 v) = installed v"
  by (simp_all add: installed_def)

lemma installed_call_completeZoom [simp]:
  "installed (call_completeZoom b v) = installed v"
  by (simp add: call_completeZoom_def split: option.splits)

lemma installed_clearZoom [simp]:
  "installed v \<Longrightarrow> installed (clearZoom v)"
  by (simp add: installed_def clearZoom_def)

lemma installed_cancelZoom [simp]:
  "installed v \<Longrightarrow> installed (cancelZoom v)"
  by (simp add: cancelZoom_def split: option.splits)

lemma installed_stopTracking [simp]:
  "installed (stopTracking v) = installed v"
  by (simp add: stopTracking_def)

lemma installed_set_trackedEntity [simp]:
  "installed v \<Longrightarrow> installed (set_trackedEntity x v)"
  by (simp add: set_trackedEntity_def Let_def)

lemma installed_set_selectedEntity [simp]:
  "installed (set_selectedEntity x v) = installed v"
  by (simp add: set_selectedEntity_def)

lemma installed_zoomToOrFly:
  assumes "installed v"
  shows "installed (snd (zoomToOrFly v t options isFlight))"
proof (cases t)
  case None
  with assms show ?thesis by (simp add: zoomToOrFly_def)
next
  case (Some x)
  then show ?thesis
    by (simp add: zoomToOrFly_def Let_def) (simp add: installed_def)
qed

lemma installed_normalize:
  "installed v \<Longrightarrow> installed (normalizeZoomTarget zp t v)"
  "installed v \<Longrightarrow> installed (imageryPosition zp c v)"
  "installed v \<Longrightarrow> installed (loadingFinished zp ds v)"
  by (auto simp: installed_def normalizeZoomTarget_def imageryPosition_def loadingFinished_def
      setEntitiesTarget_def slice0_def newArray_def split: Target.splits)

lemma installed_start_flight:
  "installed v \<Longrightarrow> completeZoom v \<noteq> None \<Longrightarrow> installed (v\<lparr> flights := n \<rparr>)"
  by (simp add: installed_def)

lemma installed_zoomToVolumetric:
  "installed v \<Longrightarrow> completeZoom v \<noteq> None \<Longrightarrow> installed (zoomToVolumetric t zo v)"
  by (simp add: zoomToVolumetric_def Let_def installed_start_flight)

lemma installed_zoomToPosition:
  "installed v \<Longrightarrow> completeZoom v \<noteq> None \<Longrightarrow> installed (zoomToPosition c zo v)"
  by (simp add: zoomToPosition_def installed_start_flight)

lemma installed_zoomToEntities:
  "installed v \<Longrightarrow> completeZoom v \<noteq> None \<Longrightarrow> installed (zoomToEntities cesium es zo v)"
  by (simp add: zoomToEntities_def Let_def installed_start_flight split: option.splits prod.splits)

lemma installed_updateZoomTarget:
  assumes i: "installed v"
  shows "installed (updateZoomTarget cesium v)"
proof (cases "zoomTarget v")
  case None
  with i show ?thesis by (simp add: updateZoomTarget_def)
next
  case (Some target)
  with i have c: "completeZoom v \<noteq> None"
    by (auto simp: installed_def)
  have r: "installed (v\<lparr> readyCallbacks := cs \<rparr>)" for cs
    using i c by (simp add: installed_def)
  from Some i c r show ?thesis
    by (simp add: updateZoomTarget_def Let_def installed_zoomToPosition installed_zoomToEntities
        split: ZoomTarget.splits)
qed

lemma installed_updateTrackedEntity:
  "installed v \<Longrightarrow> installed (updateTrackedEntity cesium v)"
  by (simp add: updateTrackedEntity_def Let_def split: option.splits prod.splits)

lemma installed_runCallbacks:
  assumes "\<And>c w. installed w \<Longrightarrow> completeZoom w \<noteq> None \<Longrightarrow> installed (f c w)"
    and "\<And>c w. completeZoom (f c w) = completeZoom w"
  shows "installed v \<Longrightarrow> completeZoom v \<noteq> None \<Longrightarrow> installed (runCallbacks f cs v)"
  by (induction cs arbitrary: v) (simp_all add: assms)

lemma installed_readySettled:
  assumes i: "installed v"
  shows "installed (readySettled rp ok v)"
proof (cases "completeZoom v")
  case None
  with i have "readyCallbacks v = []"
    by (simp add: installed_def)
  with i show ?thesis
    by (simp add: readySettled_def installed_def)
next
  case (Some q)
  let ?w = "v\<lparr> readyCallbacks := filter (\<lambda>c. callbackPromise c \<noteq> rp) (readyCallbacks v) \<rparr>"
  have w1: "installed ?w"
    using i Some by (simp add: installed_def)
  have w2: "completeZoom ?w \<noteq> None"
    using Some by simp
  have ful: "installed x \<Longrightarrow> completeZoom x \<noteq> None \<Longrightarrow> installed (onFulfilled c x)" for c x
    by (cases c) (simp_all add: installed_zoomToVolumetric)
  have rej: "installed x \<Longrightarrow> completeZoom x \<noteq> None \<Longrightarrow> installed (onRejected c x)" for c x
    by (cases c) simp_all
  have "installed (runCallbacks onFulfilled cs ?w)" for cs
    by (rule installed_runCallbacks [OF ful _ w1 w2]) simp_all
  moreover have "installed (runCallbacks onRejected cs ?w)" for cs
    by (rule installed_runCallbacks [OF rej _ w1 w2]) simp_all
  ultimately show ?thesis
    by (simp add: readySettled_def)
qed

lemma installed_flight:
  "installed v \<Longrightarrow> installed (flightComplete v)"
  "installed v \<Longrightarrow> installed (flightCancel v)"
  by (auto simp: flightComplete_def flightCancel_def installed_def)

lemma installed_dataSourceRemoved:
  "installed v \<Longrightarrow> installed (dataSourceRemoved ds v)"
  by (simp add: dataSourceRemoved_def Let_def split: option.splits)

lemma installed_onEntityCollectionChanged:
  "installed v \<Longrightarrow> installed (onEntityCollectionChanged removed v)"
  by (induction removed arbitrary: v) (simp_all add: Let_def)

lemma installed_onTick:
  "installed v \<Longrightarrow> installed (onTick cesium time v)"
  by (simp add: onTick_def Let_def split: option.splits prod.splits)

lemma installed_step:
  assumes "installed v"
  shows "installed (step e v)"
  using assms
  by (cases e)
     (simp_all add: installed_zoomToOrFly installed_normalize installed_updateZoomTarget
       installed_updateTrackedEntity installed_readySettled installed_flight
       installed_dataSourceRemoved installed_onEntityCollectionChanged installed_onTick
       postRender_def clearTrackedObject_def mutateArray_def)

text \<open>
  In every state reached from a new viewer the request fields have that shape. So
  \<open>_completeZoom\<close> is defined wherever the code calls it: while a target is installed,
  when a flight calls back and when a ready-continuation runs; and the closure installed
  with a pending request resolves that request's promise.
\<close>

lemma installed_run:
  "installed v \<Longrightarrow> installed (run es v)"
  by (induction es arbitrary: v) (simp_all add: installed_step)

lemma installed_reachable:
  "installed (run es (newViewer m store))"
  by (rule installed_run) (simp add: installed_def newViewer_def)

section \<open>Settling a request for a list of entities\<close>

lemma pollBoundingSpheres_all_FAILED:
  "\<forall>e\<in>set es. fst (getBoundingSphere cesium (Some e) False) = FAILED \<Longrightarrow>
   pollBoundingSpheres cesium es scratch acc = (Some acc, scratch)"
  by (induction es arbitrary: scratch acc) (auto split: prod.splits)

lemma pollBoundingSpheres_none_PENDING:
  "\<forall>e\<in>set es. fst (getBoundingSphere cesium (Some e) False) \<noteq> PENDING \<Longrightarrow>
   fst (pollBoundingSpheres cesium es scratch acc) =
     Some (acc @ map (\<lambda>e. snd (getBoundingSphere cesium (Some e) False))
                   (filter (\<lambda>e. fst (getBoundingSphere cesium (Some e) False) \<noteq> FAILED) es))"
proof (induction es arbitrary: scratch acc)
  case Nil
  then show ?case by simp
next
  case (Cons e es)
  obtain st b where q: "getBoundingSphere cesium (Some e) False = (st, b)"
    by (cases "getBoundingSphere cesium (Some e) False")
  from Cons.prems q have np: "st \<noteq> PENDING" by auto
  from Cons.prems have rest: "\<forall>e\<in>set es. fst (getBoundingSphere cesium (Some e) False) \<noteq> PENDING"
    by simp
  show ?case
  proof (cases st)
    case DONE
    with q Cons.IH [OF rest] show ?thesis by simp
  next
    case PENDING
    with np show ?thesis by simp
  next
    case FAILED
    with q Cons.IH [OF rest] show ?thesis by simp
  qed
qed

text \<open>
  A request for a list of entities whose promise is still unresolved, settled on a
  render pass (the scene not morphing) where every entity of the list reports
  \<open>FAILED\<close>: the promise resolves to \<open>false\<close>, by one call of its \<open>resolve\<close>; no call is
  made on the camera and no flight starts; the request is cleared.
\<close>

lemma all_FAILED_cancels_unresolved_request:
  assumes "zoomTarget viewer = Some (TEntities a)"
    and "sceneMode viewer \<noteq> MORPHING"
    and "\<forall>e\<in>set (readArray viewer a). fst (getBoundingSphere cesium (Some e) False) = FAILED"
    and "zoomPromise viewer = Some p"
    and "completeZoom viewer = Some p"
    and "outcome viewer p = None"
  shows "outcome (updateZoomTarget cesium viewer) p = Some False
       \<and> resolutions (updateZoomTarget cesium viewer) p = [False]
       \<and> camera (updateZoomTarget cesium viewer) = camera viewer
       \<and> flights (updateZoomTarget cesium viewer) = flights viewer
       \<and> zoomPromise (updateZoomTarget cesium viewer) = None
       \<and> zoomTarget (updateZoomTarget cesium viewer) = None"
proof -
  from assms(6) have nocalls: "filter (\<lambda>c. fst c = p) (resolveCalls viewer) = []"
    by (auto simp: outcome_def filter_empty_conv map_of_eq_None_iff image_iff)
  have upd: "updateZoomTarget cesium viewer =
      cancelZoom (viewer\<lparr> boundingSphereScratch := boundingSphereScratch viewer \<rparr>)"
    using assms(1,2) pollBoundingSpheres_all_FAILED [OF assms(3)]
    by (simp add: updateZoomTarget_def zoomToEntities_def Let_def)
  show ?thesis
    using assms(4,5,6) nocalls
    by (simp add: upd cancelZoom_def clearZoom_def call_completeZoom_def outcome_def
        resolutions_def map_of_append map_add_def)
qed

text \<open>
  Whatever the promise's state, the pass makes no call on the camera, starts no flight
  and clears the request.
\<close>

lemma all_FAILED_moves_nothing:
  assumes "zoomTarget viewer = Some (TEntities a)"
    and "sceneMode viewer \<noteq> MORPHING"
    and "\<forall>e\<in>set (readArray viewer a). fst (getBoundingSphere cesium (Some e) False) = FAILED"
  shows "camera (updateZoomTarget cesium viewer) = camera viewer
       \<and> flights (updateZoomTarget cesium viewer) = flights viewer
       \<and> zoomPromise (updateZoomTarget cesium viewer) = None"
  using assms(1,2) pollBoundingSpheres_all_FAILED [OF assms(3)]
  by (simp add: updateZoomTarget_def zoomToEntities_def Let_def)

text \<open>
  Claim C5, on the history \<open>staleCompletion\<close>. The second request (promise 1) is
  installed, with the copy of \<open>[entityA, entityB]\<close> as its target, when the first
  flight's \<open>complete\<close> callback calls \<open>viewer._completeZoom(true)\<close>: that resolves promise
  1 to \<open>true\<close>. On the next render pass both entities report \<open>FAILED\<close>; \<open>cancelZoom\<close>
  clears the request and calls \<open>_completeZoom(false)\<close> on the resolved promise. No call
  is made on the camera for the second request, and its outcome is \<open>true\<close>, not \<open>false\<close>.
\<close>

theorem stale_completion_defeats_all_FAILED:
  "zoomTarget staleCompletion = Some (TEntities 2)
   \<and> readArray staleCompletion 2 = [entityA, entityB]
   \<and> sceneMode staleCompletion = SCENE3D
   \<and> zoomPromise staleCompletion = Some 1
   \<and> completeZoom staleCompletion = Some 1
   \<and> outcome staleCompletion 1 = Some True
   \<and> outcome (updateZoomTarget (sampleCesium (\<lambda>n. FAILED)) staleCompletion) 1 = Some True
   \<and> resolveCalls (updateZoomTarget (sampleCesium (\<lambda>n. FAILED)) staleCompletion)
       = [(1, True), (1, False)]
   \<and> camera (updateZoomTarget (sampleCesium (\<lambda>n. FAILED)) staleCompletion)
       = camera staleCompletion
   \<and> camera staleCompletion
       = [flyToBoundingSphere \<lparr> center = (0, 0, 0), radius = 3 \<rparr> None None None]
   \<and> zoomPromise (updateZoomTarget (sampleCesium (\<lambda>n. FAILED)) staleCompletion) = None
   \<and> outcome (run [PostRender (sampleCesium (\<lambda>n. FAILED))] staleCompletion) 1 = Some True"
  by (simp add: staleCompletion_def sample_defs viewer_defs)

text \<open>
  Claim C6. A request for a list of entities settled on a render pass where no entity
  reports \<open>PENDING\<close> and at least one does not report \<open>FAILED\<close>: the camera is moved to
  \<open>fromBoundingSpheres\<close> of the spheres of the entities that do not report \<open>FAILED\<close>, in
  the order of the list, and of no other sphere. The calls on the camera are the reset
  of the transform made when a tracked entity is cleared, then the flight, or the view
  followed by the reset of the transform.
\<close>

theorem move_uses_union_of_non_FAILED:
  assumes "zoomTarget viewer = Some (TEntities a)"
    and "sceneMode viewer \<noteq> MORPHING"
    and "\<forall>e\<in>set (readArray viewer a). fst (getBoundingSphere cesium (Some e) False) \<noteq> PENDING"
    and "\<exists>e\<in>set (readArray viewer a). fst (getBoundingSphere cesium (Some e) False) \<noteq> FAILED"
  shows "camera (updateZoomTarget cesium viewer) =
           camera viewer
           @ (if trackedEntity viewer = None then [] else [lookAtTransform IDENTITY])
           @ (let zo = (case zoomOptions viewer of
                          None \<Rightarrow> \<lparr> offset = None, duration = None, maximumHeight = None \<rparr>
                        | Some z \<Rightarrow> z);
                  bs = fromBoundingSpheres cesium
                         (map (\<lambda>e. snd (getBoundingSphere cesium (Some e) False))
                            (filter (\<lambda>e. fst (getBoundingSphere cesium (Some e) False) \<noteq> FAILED)
                               (readArray viewer a)))
              in if zoomIsFlight viewer
                 then [flyToBoundingSphere bs (offset zo) (duration zo) (maximumHeight zo)]
                 else [viewBoundingSphere bs (offset zo), lookAtTransform IDENTITY])"
proof -
  let ?es = "readArray viewer a"
  let ?spheres = "map (\<lambda>e. snd (getBoundingSphere cesium (Some e) False))
                    (filter (\<lambda>e. fst (getBoundingSphere cesium (Some e) False) \<noteq> FAILED) ?es)"
  obtain scratch where poll:
    "pollBoundingSpheres cesium ?es (boundingSphereScratch viewer) [] = (Some ?spheres, scratch)"
    using pollBoundingSpheres_none_PENDING [OF assms(3), of "boundingSphereScratch viewer" "[]"]
    by (cases "pollBoundingSpheres cesium ?es (boundingSphereScratch viewer) []") simp
  from assms(4) have ne: "?spheres \<noteq> []"
    by (auto simp: filter_empty_conv)
  show ?thesis
    using assms(1,2) poll ne
    by (simp add: updateZoomTarget_def zoomToEntities_def Let_def clearZoom_def
        camera_set_trackedEntity_None)
qed

text \<open>
  The request for \<open>[entityA, entityB]\<close> with \<open>entityA\<close> (ref 1) \<open>FAILED\<close> and \<open>entityB\<close>
  (ref 2) \<open>DONE\<close>: the view is of \<open>fromBoundingSpheres [sphereOf 2]\<close>, whose radius is 2;
  the sphere of \<open>entityA\<close> (radius 1) adds nothing.
\<close>

theorem move_uses_union_of_non_FAILED_witness:
  "readArray (listRequest False) 1 = [entityA, entityB]
   \<and> camera (updateZoomTarget (sampleCesium (\<lambda>n. if n = 1 then FAILED else DONE)) (listRequest False))
       = [viewBoundingSphere \<lparr> center = (0, 0, 0), radius = 2 \<rparr> None, lookAtTransform IDENTITY]"
proof -
  let ?c = "sampleCesium (\<lambda>n. if n = 1 then FAILED else DONE)"
  have h1: "zoomTarget (listRequest False) = Some (TEntities 1)"
    by (simp add: sample_defs viewer_defs)
  have h2: "sceneMode (listRequest False) \<noteq> MORPHING"
    by (simp add: sample_defs viewer_defs)
  have arr: "readArray (listRequest False) 1 = [entityA, entityB]"
    by (simp add: sample_defs viewer_defs)
  have h3: "\<forall>e\<in>set (readArray (listRequest False) 1).
              fst (getBoundingSphere ?c (Some e) False) \<noteq> PENDING"
    unfolding arr by (simp add: sampleCesium_def)
  have h4: "\<exists>e\<in>set (readArray (listRequest False) 1).
              fst (getBoundingSphere ?c (Some e) False) \<noteq> FAILED"
    unfolding arr by (simp add: sampleCesium_def entityA_def entityB_def)
  have st: "camera (listRequest False) = [] \<and> trackedEntity (listRequest False) = None
          \<and> zoomOptions (listRequest False) = None \<and> zoomIsFlight (listRequest False) = False"
    by (simp add: sample_defs viewer_defs)
  show ?thesis
    using arr st move_uses_union_of_non_FAILED [OF h1 h2 h3 h4]
    by (simp add: sampleCesium_def entityA_def entityB_def sphereOf_def)
qed

section \<open>The viewer's copy of an array target\<close>

lemma call_completeZoom_arrays:
  "call_completeZoom b (v\<lparr> arrays := X \<rparr>) = (call_completeZoom b v)\<lparr> arrays := X \<rparr>"
  by (simp add: call_completeZoom_def split: option.splits)

lemma clearZoom_arrays:
  "clearZoom (v\<lparr> arrays := X \<rparr>) = (clearZoom v)\<lparr> arrays := X \<rparr>"
  by (simp add: clearZoom_def)

lemma cancelZoom_arrays:
  "cancelZoom (v\<lparr> arrays := X \<rparr>) = (cancelZoom v)\<lparr> arrays := X \<rparr>"
  by (simp add: cancelZoom_def clearZoom_arrays call_completeZoom_arrays split: option.splits)

lemma stopTracking_arrays:
  "stopTracking (v\<lparr> arrays := X \<rparr>) = (stopTracking v)\<lparr> arrays := X \<rparr>"
  by (simp add: stopTracking_def)

lemma set_trackedEntity_arrays:
  "set_trackedEntity x (v\<lparr> arrays := X \<rparr>) = (set_trackedEntity x v)\<lparr> arrays := X \<rparr>"
proof -
  have c: "cancelZoom (v\<lparr> arrays := X, trackedEntity := x \<rparr>)
         = (cancelZoom (v\<lparr> trackedEntity := x \<rparr>))\<lparr> arrays := X \<rparr>"
  proof -
    have r: "v\<lparr> arrays := X, trackedEntity := x \<rparr> = (v\<lparr> trackedEntity := x \<rparr>)\<lparr> arrays := X \<rparr>"
      by simp
    show ?thesis
      by (simp only: r cancelZoom_arrays)
  qed
  show ?thesis
    by (simp add: set_trackedEntity_def Let_def c stopTracking_arrays)
qed

lemma zoomToEntities_arrays:
  "zoomToEntities cesium es zo (v\<lparr> arrays := X \<rparr>) = (zoomToEntities cesium es zo v)\<lparr> arrays := X \<rparr>"
proof -
  have s: "(v\<lparr> arrays := X, boundingSphereScratch := q \<rparr>)
         = (v\<lparr> boundingSphereScratch := q \<rparr>)\<lparr> arrays := X \<rparr>" for q
    by simp
  show ?thesis
    unfolding zoomToEntities_def Let_def
    by (simp only: Viewer.simps s cancelZoom_arrays set_trackedEntity_arrays clearZoom_arrays
          call_completeZoom_arrays split: option.splits prod.splits)
       (simp add: clearZoom_def call_completeZoom_def split: option.splits)
qed

lemma arrays_zoomToEntities [simp]:
  "arrays (zoomToEntities cesium es zo v) = arrays v"
  by (simp add: zoomToEntities_def Let_def clearZoom_def split: option.splits prod.splits)

lemma updateZoomTarget_mutateArray:
  assumes "zoomTarget v = Some (TEntities a')" and "a \<noteq> a'"
  shows "updateZoomTarget cesium (mutateArray a xs v) = mutateArray a xs (updateZoomTarget cesium v)"
proof (cases "a < length (arrays v)")
  case False
  with assms show ?thesis
    by (simp add: mutateArray_def updateZoomTarget_def Let_def)
next
  case True
  have rd: "readArray (v\<lparr> arrays := (arrays v)[a := xs] \<rparr>) a' = readArray v a'"
    using assms(2) by (simp add: readArray_def)
  from True assms(1) show ?thesis
    by (simp add: mutateArray_def updateZoomTarget_def Let_def rd zoomToEntities_arrays)
qed

text \<open>
  Claim C10. When a request normalises a target to a list of entities kept in an array
  at address \<open>a\<close> (the target is that array, or an entity collection whose \<open>values\<close> is
  that array, or a data source whose entity collection has it as \<open>values\<close>, normalised
  at once or by the listener on its \<open>loadingEvent\<close>), the viewer stores a new array with
  the elements the array has at that moment. Whatever the application then assigns to
  the array at \<open>a\<close>, the entities the viewer's target holds are the ones copied, and a
  render pass settles the request as it would have without the assignment: the
  assignment and \<open>updateZoomTarget\<close> commute.
\<close>

theorem array_target_is_copied:
  assumes "zoomPromise that = Some zp"
    and "a < length (arrays that)"
    and "n = normalizeZoomTarget zp (AnArray a) that
       \<or> (values c = a \<and> n = normalizeZoomTarget zp (AnEntityCollection c) that)
       \<or> (values (entities ds) = a \<and> (isLoading ds \<longrightarrow> \<not> loadingEvent ds)
            \<and> n = normalizeZoomTarget zp (ADataSource ds) that)
       \<or> (values (entities ds) = a \<and> n = loadingFinished zp ds that)"
  shows "\<exists>a'. a' \<noteq> a
            \<and> zoomTarget n = Some (TEntities a')
            \<and> readArray n a' = readArray that a
            \<and> (\<forall>xs. zoomTarget (mutateArray a xs n) = Some (TEntities a')
                  \<and> readArray (mutateArray a xs n) a' = readArray that a)
            \<and> (\<forall>xs cesium.
                  updateZoomTarget cesium (mutateArray a xs n)
                  = mutateArray a xs (updateZoomTarget cesium n))"
proof -
  let ?a' = "length (arrays that)"
  have n: "n = that\<lparr> arrays := arrays that @ [readArray that a],
                      zoomTarget := Some (TEntities ?a') \<rparr>"
    using assms(1,3)
    by (auto simp: normalizeZoomTarget_def loadingFinished_def setEntitiesTarget_def
        slice0_def newArray_def)
  have ne: "?a' \<noteq> a"
    using assms(2) by simp
  have tg: "zoomTarget n = Some (TEntities ?a')"
    by (simp add: n)
  have rd: "readArray n ?a' = readArray that a"
    by (simp add: n readArray_def)
  have mut: "zoomTarget (mutateArray a xs n) = Some (TEntities ?a')
           \<and> readArray (mutateArray a xs n) ?a' = readArray that a" for xs
    using assms(2) by (simp add: n mutateArray_def readArray_def nth_append)
  have com: "updateZoomTarget cesium (mutateArray a xs n)
           = mutateArray a xs (updateZoomTarget cesium n)" for xs cesium
    using updateZoomTarget_mutateArray [OF tg, of a] ne by simp
  from ne tg rd mut com show ?thesis
    by blast
qed

text \<open>
  The application replaces the content of its array \<open>[entityA, entityB]\<close> by
  \<open>[entityC, entityA]\<close> after the request has been normalised: the viewer still polls
  \<open>entityA\<close> and \<open>entityB\<close> and views the union of their spheres (radius \<open>1 + 2\<close>; the
  array as assigned would give \<open>3 + 1\<close>). The same for the request made with the loading
  data source, whose entities are in that array.
\<close>

theorem array_target_is_copied_witness:
  "readArray (mutateArray 0 [entityC, entityA] (listRequest False)) 0 = [entityC, entityA]
   \<and> zoomTarget (mutateArray 0 [entityC, entityA] (listRequest False)) = Some (TEntities 1)
   \<and> readArray (mutateArray 0 [entityC, entityA] (listRequest False)) 1 = [entityA, entityB]
   \<and> camera (updateZoomTarget (sampleCesium (\<lambda>n. DONE))
               (mutateArray 0 [entityC, entityA] (listRequest False)))
       = [viewBoundingSphere \<lparr> center = (0, 0, 0), radius = 3 \<rparr> None, lookAtTransform IDENTITY]
   \<and> readArray (mutateArray 0 [entityC, entityA] sourceRequest) 0 = [entityC, entityA]
   \<and> zoomTarget (mutateArray 0 [entityC, entityA] sourceRequest) = Some (TEntities 1)
   \<and> readArray (mutateArray 0 [entityC, entityA] sourceRequest) 1 = [entityA, entityB]
   \<and> camera (updateZoomTarget (sampleCesium (\<lambda>n. DONE))
               (mutateArray 0 [entityC, entityA] sourceRequest))
       = [viewBoundingSphere \<lparr> center = (0, 0, 0), radius = 3 \<rparr> None, lookAtTransform IDENTITY]"
proof -
  let ?that = "snd (zoomToOrFly (newViewer SCENE3D [[entityA, entityB]]) (Some (AnArray 0)) None False)"
  let ?src = "run [ZoomToOrFly (Some (ADataSource loadingSource)) None False,
                   NormalizeZoomTarget 0 (ADataSource loadingSource)]
                (newViewer SCENE3D [[entityA, entityB]])"
  have lr: "listRequest False = normalizeZoomTarget 0 (AnArray 0) ?that"
    by (simp add: listRequest_def)
  have sr: "sourceRequest = loadingFinished 0 loadingSource ?src"
    by (simp add: sourceRequest_def)
  have h1: "zoomPromise ?that = Some 0"
    by (simp add: sample_defs viewer_defs)
  have h2: "0 < length (arrays ?that)"
    by (simp add: sample_defs viewer_defs)
  have h3: "listRequest False = normalizeZoomTarget 0 (AnArray 0) ?that
       \<or> (values (entities loadingSource) = 0
            \<and> listRequest False = normalizeZoomTarget 0 (AnEntityCollection (entities loadingSource)) ?that)
       \<or> (values (entities loadingSource) = 0
            \<and> (isLoading loadingSource \<longrightarrow> \<not> loadingEvent loadingSource)
            \<and> listRequest False = normalizeZoomTarget 0 (ADataSource loadingSource) ?that)
       \<or> (values (entities loadingSource) = 0
            \<and> listRequest False = loadingFinished 0 loadingSource ?that)"
    using lr by simp
  have g1: "zoomPromise ?src = Some 0"
    by (simp add: sample_defs viewer_defs)
  have g2: "0 < length (arrays ?src)"
    by (simp add: sample_defs viewer_defs)
  have v: "values (entities loadingSource) = 0"
    by (simp add: sample_defs)
  have g3: "sourceRequest = normalizeZoomTarget 0 (AnArray 0) ?src
       \<or> (values (entities loadingSource) = 0
            \<and> sourceRequest = normalizeZoomTarget 0 (AnEntityCollection (entities loadingSource)) ?src)
       \<or> (values (entities loadingSource) = 0
            \<and> (isLoading loadingSource \<longrightarrow> \<not> loadingEvent loadingSource)
            \<and> sourceRequest = normalizeZoomTarget 0 (ADataSource loadingSource) ?src)
       \<or> (values (entities loadingSource) = 0
            \<and> sourceRequest = loadingFinished 0 loadingSource ?src)"
    using sr v by simp
  have orig: "readArray ?that 0 = [entityA, entityB]" "readArray ?src 0 = [entityA, entityB]"
    by (simp_all add: sample_defs viewer_defs)
  have t1: "zoomTarget (listRequest False) = Some (TEntities 1)"
    "zoomTarget sourceRequest = Some (TEntities 1)"
    by (simp_all add: sample_defs viewer_defs)
  have caller:
    "readArray (mutateArray 0 [entityC, entityA] (listRequest False)) 0 = [entityC, entityA]"
    "readArray (mutateArray 0 [entityC, entityA] sourceRequest) 0 = [entityC, entityA]"
    by (simp_all add: sample_defs viewer_defs)
  have cam:
    "camera (mutateArray 0 [entityC, entityA]
               (updateZoomTarget (sampleCesium (\<lambda>n. DONE)) (listRequest False)))
       = [viewBoundingSphere \<lparr> center = (0, 0, 0), radius = 3 \<rparr> None, lookAtTransform IDENTITY]"
    "camera (mutateArray 0 [entityC, entityA]
               (updateZoomTarget (sampleCesium (\<lambda>n. DONE)) sourceRequest))
       = [viewBoundingSphere \<lparr> center = (0, 0, 0), radius = 3 \<rparr> None, lookAtTransform IDENTITY]"
    by (simp_all add: sample_defs viewer_defs)
  from array_target_is_copied [OF h1 h2 h3] obtain a' where
      a': "zoomTarget (listRequest False) = Some (TEntities a')"
      and m: "\<And>xs. zoomTarget (mutateArray 0 xs (listRequest False)) = Some (TEntities a')
                   \<and> readArray (mutateArray 0 xs (listRequest False)) a' = readArray ?that 0"
      and c: "\<And>xs cesium. updateZoomTarget cesium (mutateArray 0 xs (listRequest False))
                   = mutateArray 0 xs (updateZoomTarget cesium (listRequest False))"
    by blast
  from array_target_is_copied [OF g1 g2 g3] obtain b' where
      b': "zoomTarget sourceRequest = Some (TEntities b')"
      and ms: "\<And>xs. zoomTarget (mutateArray 0 xs sourceRequest) = Some (TEntities b')
                   \<and> readArray (mutateArray 0 xs sourceRequest) b' = readArray ?src 0"
      and cs: "\<And>xs cesium. updateZoomTarget cesium (mutateArray 0 xs sourceRequest)
                   = mutateArray 0 xs (updateZoomTarget cesium sourceRequest)"
    by blast
  from a' t1 have ea: "a' = 1" by simp
  from b' t1 have eb: "b' = 1" by simp
  have first:
    "zoomTarget (mutateArray 0 [entityC, entityA] (listRequest False)) = Some (TEntities 1)
     \<and> readArray (mutateArray 0 [entityC, entityA] (listRequest False)) 1 = [entityA, entityB]
     \<and> camera (updateZoomTarget (sampleCesium (\<lambda>n. DONE))
                 (mutateArray 0 [entityC, entityA] (listRequest False)))
         = [viewBoundingSphere \<lparr> center = (0, 0, 0), radius = 3 \<rparr> None, lookAtTransform IDENTITY]"
    using ea m [of "[entityC, entityA]"] c [of "sampleCesium (\<lambda>n. DONE)" "[entityC, entityA]"]
      orig(1) cam(1)
    by simp
  have second:
    "zoomTarget (mutateArray 0 [entityC, entityA] sourceRequest) = Some (TEntities 1)
     \<and> readArray (mutateArray 0 [entityC, entityA] sourceRequest) 1 = [entityA, entityB]
     \<and> camera (updateZoomTarget (sampleCesium (\<lambda>n. DONE))
                 (mutateArray 0 [entityC, entityA] sourceRequest))
         = [viewBoundingSphere \<lparr> center = (0, 0, 0), radius = 3 \<rparr> None, lookAtTransform IDENTITY]"
    using eb ms [of "[entityC, entityA]"] cs [of "sampleCesium (\<lambda>n. DONE)" "[entityC, entityA]"]
      orig(2) cam(2)
    by simp
  from caller first second show ?thesis
    by simp
qed

lemmas history_defs =
  samplePointCloud_def sampleTileset_def readinessRejected_def supersededFlight_def
  zoomWhileTracking_def staleCompletion_def

section \<open>A request replaced while its flight is under way\<close>

text \<open>
  A request that is still installed when the next call is made is resolved to \<open>false\<close>
  by that call, by one call of its \<open>resolve\<close>, and no later step resolves it again.
\<close>

lemma superseded_pending_request_resolves_false:
  assumes "zoomPromise v = Some p" and "completeZoom v = Some p"
    and "p < promiseCount v" and "outcome v p = None"
  shows "resolutions (run es (snd (zoomToOrFly v (Some t) options isFlight))) p = [False]
       \<and> outcome (run es (snd (zoomToOrFly v (Some t) options isFlight))) p = Some False"
proof -
  let ?v' = "snd (zoomToOrFly v (Some t) options isFlight)"
  from assms(4) have r: "resolutions v p = []"
    by (simp add: outcome_resolutions split: list.splits)
  have c: "resolutions (cancelZoom v) p = [False]"
    using assms(1,2) r
    by (simp add: cancelZoom_def clearZoom_def call_completeZoom_def resolutions_def)
  have now: "p < promiseCount ?v' \<and> completeZoom ?v' \<noteq> Some p \<and> resolutions ?v' p = [False]"
    using assms(3) c by (simp add: zoomToOrFly_def Let_def)
  with run_superseded [of p ?v' es] have "resolutions (run es ?v') p = [False]"
    by simp
  then show ?thesis
    by (simp add: outcome_resolutions)
qed

text \<open>
  Claim C1, on the history \<open>supersededFlight\<close>. The first request (promise 0) has
  started its flight and is unresolved when the second call is made. The second call
  finds \<open>_zoomPromise\<close> cleared, so its \<open>cancelZoom\<close> resolves nothing, and it replaces
  \<open>_completeZoom\<close>. From then on promise 0 is unresolved after every history of the
  viewer. The callbacks of the first flight resolve promise 1 instead: \<open>complete\<close>
  resolves it to \<open>true\<close> while the second request is still pending.
\<close>

theorem superseded_flight_is_never_resolved:
  "outcome supersededFlight 0 = None
   \<and> resolveCalls supersededFlight = []
   \<and> flights supersededFlight = 1
   \<and> zoomPromise supersededFlight = Some 1
   \<and> (\<forall>es. outcome (run es supersededFlight) 0 = None)
   \<and> outcome (run [FlightComplete] supersededFlight) 1 = Some True
   \<and> zoomPromise (run [FlightComplete] supersededFlight) = Some 1"
proof -
  have now: "resolveCalls supersededFlight = [] \<and> flights supersededFlight = 1
           \<and> zoomPromise supersededFlight = Some 1 \<and> completeZoom supersededFlight = Some 1
           \<and> promiseCount supersededFlight = 2"
    by (simp add: history_defs sample_defs viewer_defs)
  then have r0: "resolutions supersededFlight 0 = []"
    by (simp add: resolutions_def)
  have later: "outcome (run es supersededFlight) 0 = None" for es
    using run_superseded [of 0 supersededFlight es] now r0
    by (simp add: outcome_resolutions)
  have stale: "outcome (run [FlightComplete] supersededFlight) 1 = Some True
             \<and> zoomPromise (run [FlightComplete] supersededFlight) = Some 1"
    using now by (simp add: flightComplete_def call_completeZoom_def outcome_def)
  from now later stale show ?thesis
    by (simp add: outcome_def)
qed

section \<open>A list request settled while an entity is tracked\<close>

text \<open>
  What the settling pass does with a list of which no entity is \<open>PENDING\<close> and some
  entity is not \<open>FAILED\<close>, and the outcome it leaves: \<open>false\<close> whenever an entity was
  tracked, \<open>true\<close> in snap mode when none was.
\<close>

lemma outcome_later_call:
  "outcome v p = Some a \<Longrightarrow> outcome (call_completeZoom b v) p = Some a"
  by (simp add: outcome_def call_completeZoom_def map_of_append map_add_def split: option.splits)

lemma outcome_update [simp]:
  "outcome (clearZoom v) p = outcome v p"
  "outcome (v\<lparr> camera := c \<rparr>) p = outcome v p"
  "outcome (v\<lparr> flights := n \<rparr>) p = outcome v p"
  "outcome (v\<lparr> boundingSphereScratch := s \<rparr>) p = outcome v p"
  by (simp_all add: outcome_def clearZoom_def)

lemma settle_entities:
  assumes "zoomTarget viewer = Some (TEntities a)"
    and "sceneMode viewer \<noteq> MORPHING"
    and "\<forall>e\<in>set (readArray viewer a). fst (getBoundingSphere cesium (Some e) False) \<noteq> PENDING"
    and "\<exists>e\<in>set (readArray viewer a). fst (getBoundingSphere cesium (Some e) False) \<noteq> FAILED"
  shows "updateZoomTarget cesium viewer =
           (let scratch = snd (pollBoundingSpheres cesium (readArray viewer a)
                                 (boundingSphereScratch viewer) []);
                bs = fromBoundingSpheres cesium
                       (map (\<lambda>e. snd (getBoundingSphere cesium (Some e) False))
                          (filter (\<lambda>e. fst (getBoundingSphere cesium (Some e) False) \<noteq> FAILED)
                             (readArray viewer a)));
                viewer2 = set_trackedEntity None (viewer\<lparr> boundingSphereScratch := scratch \<rparr>);
                zo = (case zoomOptions viewer of
                          None \<Rightarrow> \<lparr> offset = None, duration = None, maximumHeight = None \<rparr>
                        | Some z \<Rightarrow> z)
            in if zoomIsFlight viewer then
                 (clearZoom viewer2)\<lparr> camera := camera viewer2 @
                     [flyToBoundingSphere bs (offset zo) (duration zo) (maximumHeight zo)],
                   flights := Suc (flights viewer2) \<rparr>
               else call_completeZoom True
                      (clearZoom (viewer2\<lparr> camera := camera viewer2 @
                         [viewBoundingSphere bs (offset zo), lookAtTransform IDENTITY] \<rparr>)))"
proof -
  let ?es = "readArray viewer a"
  let ?spheres = "map (\<lambda>e. snd (getBoundingSphere cesium (Some e) False))
                    (filter (\<lambda>e. fst (getBoundingSphere cesium (Some e) False) \<noteq> FAILED) ?es)"
  obtain scratch where poll:
    "pollBoundingSpheres cesium ?es (boundingSphereScratch viewer) [] = (Some ?spheres, scratch)"
    using pollBoundingSpheres_none_PENDING [OF assms(3), of "boundingSphereScratch viewer" "[]"]
    by (cases "pollBoundingSpheres cesium ?es (boundingSphereScratch viewer) []") simp
  from assms(4) have ne: "?spheres \<noteq> []"
    by (auto simp: filter_empty_conv)
  show ?thesis
    using assms(1,2) poll ne
    by (simp add: updateZoomTarget_def zoomToEntities_def Let_def clearZoom_def)
qed

lemma settle_while_tracking_resolves_false:
  assumes "zoomTarget viewer = Some (TEntities a)"
    and "sceneMode viewer \<noteq> MORPHING"
    and "\<forall>e\<in>set (readArray viewer a). fst (getBoundingSphere cesium (Some e) False) \<noteq> PENDING"
    and "\<exists>e\<in>set (readArray viewer a). fst (getBoundingSphere cesium (Some e) False) \<noteq> FAILED"
    and "zoomPromise viewer = Some p" and "completeZoom viewer = Some p"
    and "outcome viewer p = None"
    and "trackedEntity viewer \<noteq> None"
  shows "outcome (updateZoomTarget cesium viewer) p = Some False"
proof -
  have o2: "outcome (set_trackedEntity None (viewer\<lparr> boundingSphereScratch := scratch \<rparr>)) p = Some False"
    for scratch
    using assms(5-8)
    by (auto simp: set_trackedEntity_def same_object_def hasPosition_def stopTracking_def Let_def
        cancelZoom_def clearZoom_def call_completeZoom_def outcome_def map_of_append map_add_def)
  show ?thesis
    unfolding settle_entities [OF assms(1-4)] Let_def
    using o2 by (simp add: outcome_later_call)
qed

lemma settle_without_tracking_resolves_true:
  assumes "zoomTarget viewer = Some (TEntities a)"
    and "sceneMode viewer \<noteq> MORPHING"
    and "\<forall>e\<in>set (readArray viewer a). fst (getBoundingSphere cesium (Some e) False) \<noteq> PENDING"
    and "\<exists>e\<in>set (readArray viewer a). fst (getBoundingSphere cesium (Some e) False) \<noteq> FAILED"
    and "zoomPromise viewer = Some p" and "completeZoom viewer = Some p"
    and "outcome viewer p = None"
    and "trackedEntity viewer = None" and "\<not> zoomIsFlight viewer"
  shows "outcome (updateZoomTarget cesium viewer) p = Some True"
proof -
  have v2: "set_trackedEntity None (viewer\<lparr> boundingSphereScratch := scratch \<rparr>)
          = viewer\<lparr> boundingSphereScratch := scratch \<rparr>" for scratch
    using assms(8) by (simp add: set_trackedEntity_def same_object_def)
  show ?thesis
    unfolding settle_entities [OF assms(1-4)] Let_def v2
    using assms(6,7,9)
    by (simp add: clearZoom_def call_completeZoom_def outcome_def map_of_append map_add_def)
qed

text \<open>
  Claim C2, on the history \<open>zoomWhileTracking\<close>. The settling render pass assigns
  \<open>undefined\<close> to \<open>trackedEntity\<close>; the setter runs \<open>cancelZoom\<close>, which resolves the
  request's promise to \<open>false\<close>. The camera is then moved and \<open>_completeZoom(true)\<close> is
  called, on a promise that is already resolved: the outcome is \<open>false\<close>. In flight
  mode the outcome is \<open>false\<close> as well, and stays so when the flight completes.
\<close>

theorem zoom_while_tracking_resolves_false:
  "outcome (zoomWhileTracking False) 0 = Some False
   \<and> resolveCalls (zoomWhileTracking False) = [(0, False), (0, True)]
   \<and> trackedEntity (zoomWhileTracking False) = None
   \<and> entityView (zoomWhileTracking False) = None
   \<and> camera (zoomWhileTracking False) =
       [lookAtTransform IDENTITY,
        viewBoundingSphere \<lparr> center = (0, 0, 0), radius = 3 \<rparr> None,
        lookAtTransform IDENTITY]
   \<and> outcome (zoomWhileTracking True) 0 = Some False
   \<and> camera (zoomWhileTracking True) =
       [lookAtTransform IDENTITY,
        flyToBoundingSphere \<lparr> center = (0, 0, 0), radius = 3 \<rparr> None None None]
   \<and> outcome (run [FlightComplete] (zoomWhileTracking True)) 0 = Some False"
  by (simp add: history_defs sample_defs viewer_defs)

section \<open>A volumetric target whose readiness is rejected\<close>

text \<open>
  Claim C3, on the history \<open>readinessRejected\<close>. For a tileset the rejection is caught:
  the request is cancelled and its promise resolves to \<open>false\<close>. For a point cloud the
  continuation has no \<open>.catch\<close>: the rejection is handled by nobody, the request stays
  installed and its promise stays unresolved.
\<close>

theorem point_cloud_rejection_is_not_handled:
  "outcome (readinessRejected samplePointCloud) 0 = None
   \<and> resolveCalls (readinessRejected samplePointCloud) = []
   \<and> zoomPromise (readinessRejected samplePointCloud) = Some 0
   \<and> zoomTarget (readinessRejected samplePointCloud) = Some (TVolumetric samplePointCloud)
   \<and> unhandledRejections (readinessRejected samplePointCloud) = 1
   \<and> outcome (readinessRejected sampleTileset) 0 = Some False
   \<and> zoomPromise (readinessRejected sampleTileset) = None
   \<and> unhandledRejections (readinessRejected sampleTileset) = 0"
  by (simp add: history_defs sample_defs viewer_defs)

end
